theory Spec2Isabelle
  imports Complex_Main "HOL-Library.Multiset"
begin

section \<open>JavaScript values\<close>

text \<open>
  The values that travel between the pages and the REST backend are JSON documents.
  Numbers are the integers that occur as ids, ratings and status codes; \<open>JNaN\<close> is the
  result of a failed \<open>parseInt\<close>. Confidence scores, the only fractional numbers of
  the application, are modelled apart (section on the prediction detail page).
\<close>

datatype jsval =
    JUndefined
  | JNull
  | JBool bool
  | JNum int
  | JNaN
  | JStr string
  | JArr "jsval list"
  | JObj "(string \<times> jsval) list"

text \<open>JavaScript truthiness, as used by \<open>&&\<close>, \<open>||\<close>, \<open>!\<close> and \<open>if\<close>.\<close>

fun truthy :: "jsval \<Rightarrow> bool" where
  "truthy JUndefined = False"
| "truthy JNull = False"
| "truthy (JBool b) = b"
| "truthy (JNum n) = (n \<noteq> 0)"
| "truthy JNaN = False"
| "truthy (JStr s) = (s \<noteq> [])"
| "truthy (JArr xs) = True"
| "truthy (JObj kvs) = True"

text \<open>\<open>a || b\<close> on values.\<close>

definition js_or :: "jsval \<Rightarrow> jsval \<Rightarrow> jsval" where
  "js_or a b = (if truthy a then a else b)"

text \<open>
  Property read \<open>v.k\<close>: \<open>None\<close> is the TypeError that reading a property of
  \<open>null\<close> or \<open>undefined\<close> throws; a missing key reads as \<open>undefined\<close>. The keys
  read by the application (\<open>detail\<close>, \<open>id\<close>, \<open>access_token\<close>, ...) are not
  properties of strings, numbers, booleans or arrays.
\<close>

fun get_prop :: "jsval \<Rightarrow> string \<Rightarrow> jsval option" where
  "get_prop JUndefined k = None"
| "get_prop JNull k = None"
| "get_prop (JObj kvs) k = (case map_of kvs k of None \<Rightarrow> Some JUndefined | Some v \<Rightarrow> Some v)"
| "get_prop v k = Some JUndefined"

text \<open>
  A property read at a place where the object is already known to be neither \<open>null\<close>
  nor \<open>undefined\<close> (an earlier read or a truthiness guard has passed).
\<close>

definition field :: "jsval \<Rightarrow> string \<Rightarrow> jsval" where
  "field v k = (case get_prop v k of Some x \<Rightarrow> x | None \<Rightarrow> JUndefined)"

text \<open>Decimal digits of a natural number.\<close>

fun show_nat :: "nat \<Rightarrow> string" where
  "show_nat n = (if n < 10 then [char_of (48 + n)]
                 else show_nat (n div 10) @ [char_of (48 + n mod 10)])"

definition show_int :: "int \<Rightarrow> string" where
  "show_int i = (if i < 0 then CHR ''-'' # show_nat (nat (- i)) else show_nat (nat i))"

definition join_comma :: "string list \<Rightarrow> string" where
  "join_comma xs = (case xs of [] \<Rightarrow> [] | y # ys \<Rightarrow> foldl (\<lambda>acc s. acc @ '','' @ s) y ys)"

text \<open>\<open>String(v)\<close>, the conversion behind template literals and \<open>localStorage.setItem\<close>.\<close>

fun js_String :: "jsval \<Rightarrow> string" where
  "js_String JUndefined = ''undefined''"
| "js_String JNull = ''null''"
| "js_String (JBool b) = (if b then ''true'' else ''false'')"
| "js_String (JNum n) = show_int n"
| "js_String JNaN = ''NaN''"
| "js_String (JStr s) = s"
| "js_String (JArr xs) =
     join_comma (map (\<lambda>x. if x = JNull \<or> x = JUndefined then [] else js_String x) xs)"
| "js_String (JObj kvs) = ''[object Object]''"

section \<open>The HTTP client (services/api.js)\<close>

datatype http_method = GET | POST | PUT | DELETE

text \<open>A browser \<open>File\<close>: its name, MIME type and size in bytes.\<close>

record js_file =
  file_name :: string
  file_type :: string
  file_size :: nat

datatype body =
    NoBody
  | FormBody "(string \<times> string) list"
  | JsonBody jsval
  | FileBody js_file

text \<open>
  A URL is kept as the template literal that builds it: literal text, an interpolated
  argument \<open>${v}\<close>, or an interpolated \<open>${Number(v)}\<close>.
\<close>

datatype url_part = Text string | Interp jsval | InterpNumber jsval

record request =
  req_method :: http_method
  req_baseURL :: string
  req_url :: "url_part list"
  req_body :: body
  req_headers :: "(string \<times> string) list"

record response =
  resp_status :: nat
  resp_data :: jsval

text \<open>What the network answers to one request put on the wire.\<close>

datatype reply = NetworkError | Reply response

text \<open>
  A thrown value as a \<open>catch\<close> block sees it: an axios error, whose \<open>response\<close>
  is set when the server answered, or a TypeError raised by the page's own code.
\<close>

datatype js_error = AxiosError "response option" | TypeError

fun error_response :: "js_error \<Rightarrow> response option" where
  "error_response (AxiosError r) = r"
| "error_response TypeError = None"

text \<open>A promise as its awaiting caller sees it; \<open>Pending\<close> never settles.\<close>

datatype 'a promise = Resolved 'a | Rejected js_error | Pending

text \<open>
  The browser around the pages: \<open>localStorage\<close>, \<open>window.location.href\<close>, the
  \<open>Authorization\<close> default of the global axios object, the requests put on the wire
  so far and the answers the network will give to the next ones, in order.
\<close>

record browser =
  localStorage :: "string \<rightharpoonup> string"
  location_href :: string
  axios_default_auth :: "string option"
  sent :: "request list"
  replies :: "reply list"

definition set_header :: "string \<Rightarrow> string \<Rightarrow> (string \<times> string) list \<Rightarrow> (string \<times> string) list" where
  "set_header k v hs = (k, v) # filter (\<lambda>kv. fst kv \<noteq> k) hs"

text \<open>axios settles a response as fulfilled when its status is 2xx (the library default).\<close>

definition validateStatus :: "nat \<Rightarrow> bool" where
  "validateStatus s = (200 \<le> s \<and> s < 300)"

text \<open>The request interceptor: add the bearer token when one is stored.\<close>

definition request_interceptor :: "browser \<Rightarrow> request \<Rightarrow> request" where
  "request_interceptor b config =
     (case localStorage b ''token'' of
        None \<Rightarrow> config
      | Some token \<Rightarrow>
          if token \<noteq> [] then
            config\<lparr>req_headers := set_header ''Authorization'' (''Bearer '' @ token) (req_headers config)\<rparr>
          else config)"

definition is_redirect :: "nat \<Rightarrow> bool" where
  "is_redirect s = (s = 307 \<or> s = 308)"

text \<open>
  One call \<open>api(config)\<close>: the request interceptor, the request on the wire, then the
  response interceptor on the answer. Both handlers of the response interceptor call
  \<open>api(originalRequest)\<close> again on status 307 or 308; the recursion consumes the
  answers of the network, and the promise stays pending when they run out.
\<close>

fun api_loop :: "reply list \<Rightarrow> request \<Rightarrow> browser \<Rightarrow> response promise \<times> browser" where
  "api_loop [] config b =
     (Pending, b\<lparr>sent := sent b @ [request_interceptor b config], replies := []\<rparr>)"
| "api_loop (r # rs) config b =
     (let config' = request_interceptor b config;
          b' = b\<lparr>sent := sent b @ [config'], replies := rs\<rparr>
      in case r of
           NetworkError \<Rightarrow> (Rejected (AxiosError None), b')
         | Reply response \<Rightarrow>
             if validateStatus (resp_status response) then
               (if is_redirect (resp_status response) then api_loop rs config' b'
                else (Resolved response, b'))
             else if resp_status response = 401 then
               (Rejected (AxiosError (Some response)),
                b'\<lparr>localStorage := (localStorage b')(''token'' := None),
                   location_href := ''/login''\<rparr>)
             else if is_redirect (resp_status response) then api_loop rs config' b'
             else (Rejected (AxiosError (Some response)), b'))"

definition api :: "request \<Rightarrow> browser \<Rightarrow> response promise \<times> browser" where
  "api config b = api_loop (replies b) config b"

subsection \<open>Failed answers\<close>


fun redirect_reply :: "reply \<Rightarrow> bool" where
  "redirect_reply NetworkError = False"
| "redirect_reply (Reply r) = is_redirect (resp_status r)"


text \<open>The instance made by \<open>axios.create\<close>, and its \<open>get\<close>/\<open>post\<close>/\<open>put\<close>/\<open>delete\<close>.\<close>

definition api_headers :: "(string \<times> string) list" where
  "api_headers = [(''Content-Type'', ''application/json'')]"

definition api_get :: "url_part list \<Rightarrow> request" where
  "api_get url = \<lparr>req_method = GET, req_baseURL = ''/api'', req_url = url,
                   req_body = NoBody, req_headers = api_headers\<rparr>"

definition api_post :: "url_part list \<Rightarrow> body \<Rightarrow> request" where
  "api_post url data = \<lparr>req_method = POST, req_baseURL = ''/api'', req_url = url,
                         req_body = data, req_headers = api_headers\<rparr>"

definition api_post_with :: "url_part list \<Rightarrow> body \<Rightarrow> string \<Rightarrow> request" where
  "api_post_with url data content_type =
     (api_post url data)\<lparr>req_headers := set_header ''Content-Type'' content_type api_headers\<rparr>"

definition api_put :: "url_part list \<Rightarrow> body \<Rightarrow> request" where
  "api_put url data = \<lparr>req_method = PUT, req_baseURL = ''/api'', req_url = url,
                        req_body = data, req_headers = api_headers\<rparr>"

definition api_delete :: "url_part list \<Rightarrow> request" where
  "api_delete url = \<lparr>req_method = DELETE, req_baseURL = ''/api'', req_url = url,
                      req_body = NoBody, req_headers = api_headers\<rparr>"

subsection \<open>The services\<close>

text \<open>A default parameter \<open>(limit = n)\<close> applies when the argument is \<open>undefined\<close>.\<close>

definition default_arg :: "jsval \<Rightarrow> jsval \<Rightarrow> jsval" where
  "default_arg d v = (if v = JUndefined then d else v)"

text \<open>The requests the service objects build, one constructor per service function.\<close>

datatype service_call =
    Login string string
  | GetCurrentUser
  | VerifyToken
  | GetPredictions jsval
  | GetPrediction jsval
  | CreatePrediction jsval
  | GetImages jsval
  | GetImage jsval
  | UploadImage body
  | GetFeedback jsval
  | CreateFeedback jsval
  | UpdateFeedback jsval jsval
  | DeleteFeedback jsval
  | GetReports jsval
  | GetReport jsval
  | CreateReport jsval
  | GetUsers jsval
  | GetUser jsval
  | CreateUser jsval
  | UpdateUser jsval jsval
  | DeleteUser jsval

fun service_request :: "service_call \<Rightarrow> request" where
  "service_request (Login username password) =
     api_post_with [Text ''/auth/token'']
       (FormBody [(''username'', username), (''password'', password)])
       ''application/x-www-form-urlencoded''"
| "service_request GetCurrentUser = api_get [Text ''/auth/me'']"
| "service_request VerifyToken = api_post [Text ''/auth/verify-token''] NoBody"
| "service_request (GetPredictions limit) =
     api_get [Text ''/predictions/?limit='', InterpNumber (default_arg (JNum 5) limit)]"
| "service_request (GetPrediction ident) = api_get [Text ''/predictions/'', Interp ident]"
| "service_request (CreatePrediction data) = api_post [Text ''/predictions/''] (JsonBody data)"
| "service_request (GetImages limit) =
     api_get [Text ''/images/?limit='', InterpNumber (default_arg (JNum 1) limit)]"
| "service_request (GetImage ident) = api_get [Text ''/images/'', Interp ident]"
| "service_request (UploadImage formData) =
     api_post_with [Text ''/images/upload''] formData ''multipart/form-data''"
| "service_request (GetFeedback ident) = api_get [Text ''/feedback/'', Interp ident]"
| "service_request (CreateFeedback data) = api_post [Text ''/feedback/''] (JsonBody data)"
| "service_request (UpdateFeedback ident data) = api_put [Text ''/feedback/'', Interp ident] (JsonBody data)"
| "service_request (DeleteFeedback ident) = api_delete [Text ''/feedback/'', Interp ident]"
| "service_request (GetReports limit) =
     api_get [Text ''/reports/?limit='', InterpNumber (default_arg (JNum 5) limit)]"
| "service_request (GetReport ident) = api_get [Text ''/reports/'', Interp ident]"
| "service_request (CreateReport data) = api_post [Text ''/reports/''] (JsonBody data)"
| "service_request (GetUsers limit) =
     api_get [Text ''/users/?limit='', Interp (default_arg (JNum 10) limit)]"
| "service_request (GetUser ident) = api_get [Text ''/users/'', Interp ident]"
| "service_request (CreateUser data) = api_post [Text ''/users/''] (JsonBody data)"
| "service_request (UpdateUser ident data) = api_put [Text ''/users/'', Interp ident] (JsonBody data)"
| "service_request (DeleteUser ident) = api_delete [Text ''/users/'', Interp ident]"

text \<open>Every service function hands its request to the shared client.\<close>

definition call_service :: "service_call \<Rightarrow> browser \<Rightarrow> response promise \<times> browser" where
  "call_service c b = api (service_request c) b"

subsection \<open>authService\<close>

text \<open>
  \<open>authService.login\<close>: the token and the user are stored only after the awaited POST
  has resolved; a rejection leaves the function at the \<open>await\<close>. The encoding done by
  \<open>JSON.stringify\<close> is a parameter.
\<close>

definition authService_login ::
  "(jsval \<Rightarrow> string) \<Rightarrow> string \<Rightarrow> string \<Rightarrow> browser \<Rightarrow> response promise \<times> browser" where
  "authService_login stringify username password b =
     (case call_service (Login username password) b of
        (Resolved response, b1) \<Rightarrow>
          (case get_prop (resp_data response) ''access_token'' of
             None \<Rightarrow> (Rejected TypeError, b1)
           | Some access_token \<Rightarrow>
               if truthy access_token then
                 (Resolved response,
                  b1\<lparr>localStorage := (localStorage b1)
                       (''token'' \<mapsto> js_String access_token,
                        ''user'' \<mapsto> stringify (JObj
                           [(''id'', field (resp_data response) ''user_id''),
                            (''username'', field (resp_data response) ''username''),
                            (''role'', field (resp_data response) ''role''),
                            (''full_name'', field (resp_data response) ''full_name'')]))\<rparr>)
               else (Resolved response, b1))
      | (Rejected e, b1) \<Rightarrow> (Rejected e, b1)
      | (Pending, b1) \<Rightarrow> (Pending, b1))"

section \<open>The authentication context (contexts/AuthContext.js)\<close>

record auth_state =
  user :: jsval
  isAuthenticated :: bool
  isLoading :: bool
  authError :: jsval

text \<open>The state of \<open>AuthProvider\<close> when it mounts.\<close>

definition auth_initial :: auth_state where
  "auth_initial = \<lparr>user = JNull, isAuthenticated = False, isLoading = True, authError = JNull\<rparr>"

text \<open>
  A request through the global \<open>axios\<close> object: no interceptor of the shared client
  runs; the answer settles the promise by its status.
\<close>

definition axios_request :: "request \<Rightarrow> browser \<Rightarrow> response promise \<times> browser" where
  "axios_request config b =
     (let config' = (case axios_default_auth b of
                       None \<Rightarrow> config
                     | Some a \<Rightarrow> config\<lparr>req_headers := set_header ''Authorization'' a (req_headers config)\<rparr>)
      in case replies b of
           [] \<Rightarrow> (Pending, b\<lparr>sent := sent b @ [config']\<rparr>)
         | r # rs \<Rightarrow>
             (let b' = b\<lparr>sent := sent b @ [config'], replies := rs\<rparr>
              in case r of
                   NetworkError \<Rightarrow> (Rejected (AxiosError None), b')
                 | Reply response \<Rightarrow>
                     if validateStatus (resp_status response) then (Resolved response, b')
                     else (Rejected (AxiosError (Some response)), b')))"

definition login_request :: "string \<Rightarrow> string \<Rightarrow> request" where
  "login_request username password =
     \<lparr>req_method = POST, req_baseURL = [], req_url = [Text ''/api/auth/token''],
      req_body = FormBody [(''username'', username), (''password'', password)],
      req_headers = [(''Content-Type'', ''application/x-www-form-urlencoded'')]\<rparr>"

record login_result =
  success :: bool
  error :: jsval

text \<open>
  The message chosen by the \<open>catch\<close> block of \<open>login\<close>. The guard
  \<open>error.response && error.response.data\<close> excludes \<open>null\<close> and \<open>undefined\<close>,
  so the read of \<open>detail\<close> cannot throw there.
\<close>

definition login_error_message :: "js_error \<Rightarrow> jsval" where
  "login_error_message e =
     (case error_response e of
        None \<Rightarrow> JStr ''Network error. Please try again.''
      | Some r \<Rightarrow>
          if truthy (resp_data r) then
            js_or (field (resp_data r) ''detail'') (JStr ''Login failed'')
          else JStr ''Network error. Please try again.'')"

text \<open>
  The \<open>detail\<close> of a failed login as \<open>login\<close> reads it: the field of the error's
  response body, when the body and the field are there and the field is truthy.
\<close>

definition detail_of :: "js_error \<Rightarrow> jsval option" where
  "detail_of e =
     (case error_response e of
        None \<Rightarrow> None
      | Some r \<Rightarrow>
          (case get_prop (resp_data r) ''detail'' of
             None \<Rightarrow> None
           | Some d \<Rightarrow> if truthy d then Some d else None))"

definition login_catch ::
  "js_error \<Rightarrow> auth_state \<Rightarrow> browser \<Rightarrow> login_result promise \<times> auth_state \<times> browser" where
  "login_catch e st b =
     (let errorMessage = login_error_message e
      in (Resolved \<lparr>success = False, error = errorMessage\<rparr>,
          st\<lparr>authError := errorMessage, isLoading := False\<rparr>, b))"

text \<open>
  \<open>login\<close>: the \<open>try\<close> block up to the first throw, the \<open>catch\<close> block, and the
  \<open>finally\<close> that clears \<open>isLoading\<close>. Destructuring \<open>response.data\<close> throws a
  TypeError when the body is \<open>null\<close> or \<open>undefined\<close>.
\<close>

definition login ::
  "string \<Rightarrow> string \<Rightarrow> auth_state \<Rightarrow> browser \<Rightarrow> login_result promise \<times> auth_state \<times> browser" where
  "login username password st b =
     (let st1 = st\<lparr>isLoading := True, authError := JNull\<rparr>
      in case axios_request (login_request username password) b of
           (Pending, b1) \<Rightarrow> (Pending, st1, b1)
         | (Rejected e, b1) \<Rightarrow> login_catch e st1 b1
         | (Resolved response, b1) \<Rightarrow>
             (case get_prop (resp_data response) ''access_token'' of
                None \<Rightarrow> login_catch TypeError st1 b1
              | Some access_token \<Rightarrow>
                  (Resolved \<lparr>success = True, error = JUndefined\<rparr>,
                   st1\<lparr>user := JObj
                          [(''id'', field (resp_data response) ''user_id''),
                           (''username'', field (resp_data response) ''username''),
                           (''role'', field (resp_data response) ''role'')],
                       isAuthenticated := True, isLoading := False\<rparr>,
                   b1\<lparr>localStorage := (localStorage b1)(''token'' \<mapsto> js_String access_token),
                      axios_default_auth := Some (''Bearer '' @ js_String access_token)\<rparr>)))"

section \<open>Routes (App.js) and the user management page\<close>

datatype element = LoadingElement | Navigate string | Children

text \<open>
  \<open>ProtectedRoute\<close>. \<open>requiredRole && ...\<close> skips the role check when no role (or
  the empty string) is required; reading \<open>user.role\<close> of a \<open>null\<close> user throws.
\<close>

definition ProtectedRoute :: "auth_state \<Rightarrow> string option \<Rightarrow> js_error + element" where
  "ProtectedRoute auth requiredRole =
     (if isLoading auth then Inr LoadingElement
      else if \<not> isAuthenticated auth then Inr (Navigate ''/login'')
      else case requiredRole of
             None \<Rightarrow> Inr Children
           | Some role \<Rightarrow>
               if role = [] then Inr Children
               else (case get_prop (user auth) ''role'' of
                       None \<Rightarrow> Inl TypeError
                     | Some r \<Rightarrow> if r \<noteq> JStr role then Inr (Navigate ''/dashboard'')
                                else Inr Children))"

datatype um_view = AccessDenied | UserManagementPage

text \<open>
  \<open>UserManagement\<close>, as far as access goes: whether the \<open>users\<close> query is enabled,
  and what the component returns. An enabled query calls \<open>userService.getUsers()\<close>.
\<close>

definition users_query_enabled :: "auth_state \<Rightarrow> bool" where
  "users_query_enabled auth =
     (truthy (user auth) \<and> get_prop (user auth) ''role'' = Some (JStr ''admin''))"

definition UserManagement :: "auth_state \<Rightarrow> browser \<Rightarrow> um_view \<times> browser" where
  "UserManagement auth b =
     (let b' = (if users_query_enabled auth then snd (call_service (GetUsers JUndefined) b) else b)
      in if truthy (user auth) \<and> get_prop (user auth) ''role'' \<noteq> Some (JStr ''admin'')
         then (AccessDenied, b')
         else (UserManagementPage, b'))"

datatype route_view = Shown element | UsersPage um_view

text \<open>The route \<open>/users\<close>: \<open>UserManagement\<close> inside \<open>ProtectedRoute requiredRole="admin"\<close>.\<close>

definition users_route :: "auth_state \<Rightarrow> browser \<Rightarrow> (js_error + route_view) \<times> browser" where
  "users_route auth b =
     (case ProtectedRoute auth (Some ''admin'') of
        Inl e \<Rightarrow> (Inl e, b)
      | Inr Children \<Rightarrow> (case UserManagement auth b of (v, b') \<Rightarrow> (Inr (UsersPage v), b'))
      | Inr el \<Rightarrow> (Inr (Shown el), b))"

section \<open>The upload page (pages/Upload.js)\<close>

text \<open>The handle returned by \<open>URL.createObjectURL\<close> for a file.\<close>

datatype object_url = ObjectURL js_file

text \<open>Calls of \<open>toast\<close>; \<open>ToastErrorValue\<close> is \<open>toast.error\<close> on a value that need not be a string.\<close>

datatype toast =
    ToastError string
  | ToastLoading string
  | ToastErrorValue jsval
  | ToastSuccess string
  | ToastDismiss

text \<open>
  The component state of \<open>Upload\<close> (its \<open>file\<close> state is \<open>selectedFile\<close> here), with the toasts shown and the route navigated to.
  The timer that animates the progress bar while the upload is awaited is left out.
\<close>

record upload_page =
  selectedFile :: "js_file option"
  preview :: "object_url option"
  imageType :: string
  isUploading :: bool
  uploadProgress :: nat
  toasts :: "toast list"
  navigated :: "string option"

definition upload_initial :: upload_page where
  "upload_initial = \<lparr>selectedFile = None, preview = None, imageType = ''x-ray'', isUploading = False,
                      uploadProgress = 0, toasts = [], navigated = None\<rparr>"

definition toast_add :: "toast \<Rightarrow> upload_page \<Rightarrow> upload_page" where
  "toast_add t s = s\<lparr>toasts := toasts s @ [t]\<rparr>"

definition startsWith :: "string \<Rightarrow> string \<Rightarrow> bool" where
  "startsWith s p = (take (length p) s = p)"

text \<open>
  \<open>onDrop\<close>. Reading \<open>acceptedFiles[0].type\<close> of an empty list throws; each check
  returns after its toast, before \<open>setFile\<close> and \<open>setPreview\<close>.
\<close>

definition onDrop :: "js_file list \<Rightarrow> upload_page \<Rightarrow> js_error + upload_page" where
  "onDrop acceptedFiles s =
     (case acceptedFiles of
        [] \<Rightarrow> Inl TypeError
      | f # _ \<Rightarrow>
          if \<not> startsWith (file_type f) ''image/'' then
            Inr (toast_add (ToastError ''Please upload a valid image file'') s)
          else if file_size f > 16 * 1024 * 1024 then
            Inr (toast_add (ToastError ''File size exceeds 16MB limit'') s)
          else Inr (s\<lparr>selectedFile := Some f, preview := Some (ObjectURL f)\<rparr>))"

definition clearFile :: "upload_page \<Rightarrow> upload_page" where
  "clearFile s = s\<lparr>selectedFile := None, preview := None\<rparr>"

text \<open>\<open>getModelNameForImageType\<close>: the \<open>switch\<close> of the upload page.\<close>

definition getModelNameForImageType :: "string \<Rightarrow> string" where
  "getModelNameForImageType type =
     (if type = ''x-ray'' then ''chest-xray''
      else if type = ''brain-mri'' then ''brain-mri''
      else ''chest-xray'')"

text \<open>The \<open>catch\<close> and \<open>finally\<close> blocks of \<open>handleUpload\<close>.\<close>

definition upload_catch :: "js_error \<Rightarrow> upload_page \<Rightarrow> upload_page" where
  "upload_catch e s =
     (let s1 = toast_add ToastDismiss s;
          s2 = (case error_response e of
                  None \<Rightarrow> toast_add (ToastError ''Upload failed. Please try again.'') s1
                | Some r \<Rightarrow>
                    if truthy (resp_data r) \<and> truthy (field (resp_data r) ''detail'') then
                      toast_add (ToastError (''Upload failed: '' @ js_String (field (resp_data r) ''detail''))) s1
                    else toast_add (ToastError ''Upload failed. Please try again.'') s1)
      in s2\<lparr>isUploading := False, uploadProgress := 0\<rparr>)"

definition prediction_request_data :: "jsval \<Rightarrow> string \<Rightarrow> jsval" where
  "prediction_request_data imageId type =
     JObj [(''image_id'', imageId), (''model_name'', JStr (getModelNameForImageType type))]"

text \<open>
  \<open>handleUpload\<close>: the upload of the selected file, then the prediction request for
  the stored image. A promise that stays pending leaves the handler at its \<open>await\<close>.
\<close>

definition handleUpload :: "upload_page \<Rightarrow> browser \<Rightarrow> upload_page \<times> browser" where
  "handleUpload s b =
     (case selectedFile s of
        None \<Rightarrow> (toast_add (ToastError ''Please select a file to upload'') s, b)
      | Some f \<Rightarrow>
          (let s1 = toast_add (ToastLoading ''Uploading image...'')
                      (s\<lparr>isUploading := True, uploadProgress := 0\<rparr>)
           in case call_service (UploadImage (FileBody f)) b of
                (Pending, b1) \<Rightarrow> (s1, b1)
              | (Rejected e, b1) \<Rightarrow> (upload_catch e s1, b1)
              | (Resolved imageResponse, b1) \<Rightarrow>
                  (case get_prop (resp_data imageResponse) ''id'' of
                     None \<Rightarrow> (upload_catch TypeError s1, b1)
                   | Some imageId \<Rightarrow>
                       (let s2 = toast_add (ToastLoading ''Analyzing image with AI...'')
                                  (toast_add (ToastSuccess ''Image uploaded successfully'')
                                    (toast_add ToastDismiss (s1\<lparr>uploadProgress := 100\<rparr>)))
                        in case call_service
                                  (CreatePrediction (prediction_request_data imageId (imageType s))) b1 of
                             (Pending, b2) \<Rightarrow> (s2, b2)
                           | (Rejected e, b2) \<Rightarrow> (upload_catch e s2, b2)
                           | (Resolved predictionResponse, b2) \<Rightarrow>
                               (let s3 = toast_add (ToastSuccess ''Analysis complete'')
                                           (toast_add ToastDismiss s2)
                                in case get_prop (resp_data predictionResponse) ''id'' of
                                     None \<Rightarrow> (upload_catch TypeError s3, b2)
                                   | Some pid \<Rightarrow>
                                       (s3\<lparr>navigated := Some (''/predictions/'' @ js_String pid),
                                           isUploading := False, uploadProgress := 0\<rparr>, b2))))))"

text \<open>
  What the user can do on the page. The upload button is disabled while no file is
  selected or an upload runs; a throwing \<open>onDrop\<close> changes nothing.
\<close>

datatype upload_event =
    Drop "js_file list"
  | ClearFile
  | SelectImageType string
  | ClickUpload

definition upload_step :: "upload_event \<Rightarrow> upload_page \<times> browser \<Rightarrow> upload_page \<times> browser" where
  "upload_step ev sb =
     (case sb of (s, b) \<Rightarrow>
        (case ev of
           Drop fs \<Rightarrow> (case onDrop fs s of Inl e \<Rightarrow> (s, b) | Inr s' \<Rightarrow> (s', b))
         | ClearFile \<Rightarrow> (clearFile s, b)
         | SelectImageType t \<Rightarrow> (s\<lparr>imageType := t\<rparr>, b)
         | ClickUpload \<Rightarrow> if selectedFile s = None \<or> isUploading s then (s, b) else handleUpload s b))"

definition upload_run :: "upload_event list \<Rightarrow> upload_page \<times> browser \<Rightarrow> upload_page \<times> browser" where
  "upload_run evs sb = foldl (\<lambda>x ev. upload_step ev x) sb evs"

text \<open>The files that requests on the wire carry as their body.\<close>

fun body_file :: "request \<Rightarrow> js_file list" where
  "body_file r = (case req_body r of FileBody f \<Rightarrow> [f] | _ \<Rightarrow> [])"

definition uploaded_files :: "browser \<Rightarrow> js_file list" where
  "uploaded_files b = concat (map body_file (sent b))"

text \<open>The model names that prediction requests on the wire ask for.\<close>

definition requested_model :: "request \<Rightarrow> jsval list" where
  "requested_model r =
     (if req_method r = POST \<and> req_url r = [Text ''/predictions/'']
      then (case req_body r of JsonBody d \<Rightarrow> [field d ''model_name''] | _ \<Rightarrow> [])
      else [])"

definition prediction_models :: "browser \<Rightarrow> jsval list" where
  "prediction_models b = concat (map requested_model (sent b))"

text \<open>The upload of the selected file resolves with a body whose \<open>id\<close> can be read.\<close>

definition upload_stored :: "upload_page \<Rightarrow> browser \<Rightarrow> bool" where
  "upload_stored s b =
     (case selectedFile s of
        None \<Rightarrow> False
      | Some f \<Rightarrow>
          (case call_service (UploadImage (FileBody f)) b of
             (Resolved r, b1) \<Rightarrow> get_prop (resp_data r) ''id'' \<noteq> None
           | _ \<Rightarrow> False))"

text \<open>A file that is neither the selected one nor the body of a request on the wire.\<close>

definition never_selected :: "js_file \<Rightarrow> upload_page \<times> browser \<Rightarrow> bool" where
  "never_selected f sb = (selectedFile (fst sb) \<noteq> Some f \<and> f \<notin> set (uploaded_files (snd sb)))"

section \<open>The prediction detail page (pages/PredictionDetail.js)\<close>

subsection \<open>The list of predictions\<close>

text \<open>
  \<open>Array.prototype.sort\<close> with a comparator: the language fixes the result as the
  stable arrangement by the comparator's sign; the insertion sort below computes it.
  An element goes before the first one it does not compare greater than.
\<close>

fun js_insert :: "('a \<Rightarrow> 'a \<Rightarrow> real) \<Rightarrow> 'a \<Rightarrow> 'a list \<Rightarrow> 'a list" where
  "js_insert cmp x [] = [x]"
| "js_insert cmp x (y # ys) = (if cmp x y \<le> 0 then x # y # ys else y # js_insert cmp x ys)"

definition js_sort :: "('a \<Rightarrow> 'a \<Rightarrow> real) \<Rightarrow> 'a list \<Rightarrow> 'a list" where
  "js_sort cmp xs = foldr (js_insert cmp) xs []"

record label_confidence =
  label :: string
  confidence :: real

text \<open>
  \<open>sortedPredictions\<close>. The argument is \<open>prediction?.prediction_data\<close>: \<open>None\<close>
  while the prediction is not loaded or has no data, else the entries of the object in
  the order \<open>Object.entries\<close> lists them. Confidences are finite numbers, for which
  the sign of \<open>b[1] - a[1]\<close> is the sign of the exact difference.
\<close>

definition sortedPredictions :: "(string \<times> real) list option \<Rightarrow> label_confidence list" where
  "sortedPredictions prediction_data =
     (case prediction_data of
        None \<Rightarrow> []
      | Some entries \<Rightarrow>
          map (\<lambda>e. \<lparr>label = fst e, confidence = snd e\<rparr>)
              (js_sort (\<lambda>a b. snd b - snd a) entries))"

subsection \<open>parseInt\<close>

text \<open>
  \<open>parseInt(s)\<close> without a radix: leading white space is skipped, a sign is read, a
  prefix \<open>0x\<close> or \<open>0X\<close> selects radix 16, and the longest run of digits is the
  value; no digit gives \<open>NaN\<close>. Strings are bytes here, so only the ASCII white space
  is skipped, and the value is exact where a JavaScript number would round.
\<close>

definition is_space :: "char \<Rightarrow> bool" where
  "is_space c = (c \<in> set [CHR '' '', CHR 0x09, CHR 0x0A, CHR 0x0B, CHR 0x0C, CHR 0x0D])"

definition digit_value :: "nat \<Rightarrow> char \<Rightarrow> nat option" where
  "digit_value radix c =
     (let n = (of_char c :: nat);
          d = (if 48 \<le> n \<and> n \<le> 57 then Some (n - 48)
               else if 97 \<le> n \<and> n \<le> 122 then Some (n - 87)
               else if 65 \<le> n \<and> n \<le> 90 then Some (n - 55)
               else None)
      in case d of None \<Rightarrow> None | Some v \<Rightarrow> if v < radix then Some v else None)"

fun digits_prefix :: "nat \<Rightarrow> string \<Rightarrow> nat list" where
  "digits_prefix radix [] = []"
| "digits_prefix radix (c # cs) =
     (case digit_value radix c of None \<Rightarrow> [] | Some d \<Rightarrow> d # digits_prefix radix cs)"

definition digits_number :: "nat \<Rightarrow> nat list \<Rightarrow> nat" where
  "digits_number radix ds = foldl (\<lambda>acc d. acc * radix + d) 0 ds"

definition parseInt :: "string \<Rightarrow> jsval" where
  "parseInt s =
     (let t = dropWhile is_space s;
          negative = (case t of [] \<Rightarrow> False | c # _ \<Rightarrow> c = CHR ''-'');
          u = (case t of [] \<Rightarrow> [] | c # cs \<Rightarrow> if c = CHR ''-'' \<or> c = CHR ''+'' then cs else t);
          hex = (take 2 u = ''0x'' \<or> take 2 u = ''0X'');
          radix = (if hex then 16 else 10);
          ds = digits_prefix radix (if hex then drop 2 u else u)
      in if ds = [] then JNaN
         else JNum (if negative then - int (digits_number radix ds)
                    else int (digits_number radix ds)))"

subsection \<open>The feedback and report forms\<close>

text \<open>\<open>{...prev, [name]: v}\<close>: the key keeps its place when it is there, else it is added.\<close>

fun obj_set :: "string \<Rightarrow> jsval \<Rightarrow> (string \<times> jsval) list \<Rightarrow> (string \<times> jsval) list" where
  "obj_set k v [] = [(k, v)]"
| "obj_set k v (kv # kvs) = (if fst kv = k then (k, v) # kvs else kv # obj_set k v kvs)"

text \<open>
  The state of \<open>PredictionDetail\<close>: the two form objects, the active tab, the data of
  the \<open>feedback\<close> query (\<open>undefined\<close> until it has loaded one) and \<open>isLoading\<close> of
  the two mutations.
\<close>

record detail_page =
  feedbackData :: "(string \<times> jsval) list"
  reportData :: "(string \<times> jsval) list"
  activeTab :: string
  feedback :: jsval
  submit_isLoading :: bool
  report_isLoading :: bool

definition detail_initial :: "string \<Rightarrow> detail_page" where
  "detail_initial ident =
     \<lparr>feedbackData = [(''diagnosis_id'', parseInt ident), (''feedback_text'', JStr []),
                      (''override_diagnosis'', JStr []), (''rating'', JNum 0)],
      reportData = [(''diagnosis_id'', parseInt ident), (''report_type'', JStr ''pdf''),
                    (''include_heatmaps'', JBool True), (''additional_notes'', JStr [])],
      activeTab = ''predictions'', feedback = JUndefined,
      submit_isLoading = False, report_isLoading = False\<rparr>"

definition handleFeedbackChange :: "string \<Rightarrow> string \<Rightarrow> detail_page \<Rightarrow> detail_page" where
  "handleFeedbackChange name v p =
     p\<lparr>feedbackData := obj_set name (if name = ''rating'' then parseInt v else JStr v) (feedbackData p)\<rparr>"

definition handleReportChange :: "string \<Rightarrow> string \<Rightarrow> string \<Rightarrow> bool \<Rightarrow> detail_page \<Rightarrow> detail_page" where
  "handleReportChange name v type checked p =
     p\<lparr>reportData := obj_set name (if type = ''checkbox'' then JBool checked else JStr v) (reportData p)\<rparr>"

text \<open>What is global to the pages: the toasts shown and the cache of query results.\<close>

type_synonym query_key = "jsval list"

record cache_entry =
  entry_data :: jsval
  entry_invalidated :: bool

type_synonym query_cache = "query_key \<rightharpoonup> cache_entry"

record client =
  notices :: "toast list"
  queries :: query_cache

definition notify :: "toast \<Rightarrow> client \<Rightarrow> client" where
  "notify n c = c\<lparr>notices := notices c @ [n]\<rparr>"

text \<open>
  \<open>queryClient.invalidateQueries(key)\<close> of the data-fetching library: every cached
  query whose key starts with the given key is marked invalidated, which makes the
  next read of it fetch again.
\<close>

definition invalidateQueries :: "query_key \<Rightarrow> query_cache \<Rightarrow> query_cache" where
  "invalidateQueries k qs =
     (\<lambda>q. case qs q of
            None \<Rightarrow> None
          | Some e \<Rightarrow> if take (length k) q = k then Some (e\<lparr>entry_invalidated := True\<rparr>)
                      else Some e)"

text \<open>A read through the cache is served from the cached result unless that is invalidated.\<close>

definition served_from_cache :: "query_key \<Rightarrow> query_cache \<Rightarrow> jsval option" where
  "served_from_cache q qs =
     (case qs q of
        None \<Rightarrow> None
      | Some e \<Rightarrow> if entry_invalidated e then None else Some (entry_data e))"

text \<open>
  \<open>useMutation(fn, {onSuccess, onError}).mutate(vars)\<close>: the request of \<open>fn\<close>, then
  the callback that fits its outcome; the flag is \<open>isLoading\<close> of the mutation.
\<close>

definition mutate ::
  "service_call \<Rightarrow> ('s \<Rightarrow> 's) \<Rightarrow> (js_error \<Rightarrow> 's \<Rightarrow> 's) \<Rightarrow> 's \<Rightarrow> browser \<Rightarrow> bool \<times> 's \<times> browser" where
  "mutate call onSuccess onError s b =
     (case call_service call b of
        (Resolved r, b') \<Rightarrow> (False, onSuccess s, b')
      | (Rejected e, b') \<Rightarrow> (False, onError e s, b')
      | (Pending, b') \<Rightarrow> (True, s, b'))"

definition submitFeedbackMutation ::
  "jsval \<Rightarrow> detail_page \<times> client \<Rightarrow> browser \<Rightarrow> (detail_page \<times> client) \<times> browser" where
  "submitFeedbackMutation data pc b =
     (case mutate (CreateFeedback data)
             (\<lambda>c. notify (ToastSuccess ''Feedback submitted successfully'') c)
             (\<lambda>e c. notify (ToastError ''Failed to submit feedback'') c) (snd pc) b of
        (loading, c', b') \<Rightarrow> (((fst pc)\<lparr>submit_isLoading := loading\<rparr>, c'), b'))"

definition generateReportMutation ::
  "jsval \<Rightarrow> detail_page \<times> client \<Rightarrow> browser \<Rightarrow> (detail_page \<times> client) \<times> browser" where
  "generateReportMutation data pc b =
     (case mutate (CreateReport data)
             (\<lambda>c. notify (ToastSuccess
                ''Report generation started. It will be available in the Reports section soon.'') c)
             (\<lambda>e c. notify (ToastError ''Failed to generate report'') c) (snd pc) b of
        (loading, c', b') \<Rightarrow> (((fst pc)\<lparr>report_isLoading := loading\<rparr>, c'), b'))"

definition handleSubmitFeedback ::
  "detail_page \<times> client \<Rightarrow> browser \<Rightarrow> (detail_page \<times> client) \<times> browser" where
  "handleSubmitFeedback pc b = submitFeedbackMutation (JObj (feedbackData (fst pc))) pc b"

definition handleGenerateReport ::
  "detail_page \<times> client \<Rightarrow> browser \<Rightarrow> (detail_page \<times> client) \<times> browser" where
  "handleGenerateReport pc b = generateReportMutation (JObj (reportData (fst pc))) pc b"

text \<open>
  The feedback form as rendered: it is there on the feedback tab while the query has
  no feedback; the options of its rating select; its submit button is disabled while
  the mutation is loading or the rating is \<open>0\<close>.
\<close>

definition feedback_form_shown :: "detail_page \<Rightarrow> bool" where
  "feedback_form_shown p = (activeTab p = ''feedback'' \<and> \<not> truthy (feedback p))"

definition rating_options :: "string list" where
  "rating_options = [''0'', ''1'', ''2'', ''3'', ''4'', ''5'']"

definition submit_disabled :: "detail_page \<Rightarrow> bool" where
  "submit_disabled p = (submit_isLoading p \<or> field (JObj (feedbackData p)) ''rating'' = JNum 0)"

text \<open>
  What the user can do with the feedback form: open a tab, pick the option at an index
  of the rating select, type into the two text inputs, submit the form. A browser
  submits a form only through an enabled submit button, so \<open>handleSubmitFeedback\<close>
  runs only while the button is not disabled. The arrival of the \<open>feedback\<close>
  query's data is an event as well.
\<close>

datatype detail_event =
    SetActiveTab string
  | ChooseRating nat
  | EditOverride string
  | EditComment string
  | PressSubmit
  | FeedbackLoaded jsval

definition detail_step ::
  "detail_event \<Rightarrow> (detail_page \<times> client) \<times> browser \<Rightarrow> (detail_page \<times> client) \<times> browser" where
  "detail_step ev x =
     (case x of ((p, c), b) \<Rightarrow>
        (case ev of
           SetActiveTab t \<Rightarrow> ((p\<lparr>activeTab := t\<rparr>, c), b)
         | FeedbackLoaded v \<Rightarrow> ((p\<lparr>feedback := v\<rparr>, c), b)
         | ChooseRating i \<Rightarrow>
             if feedback_form_shown p \<and> i < length rating_options
             then ((handleFeedbackChange ''rating'' (rating_options ! i) p, c), b)
             else x
         | EditOverride v \<Rightarrow>
             if feedback_form_shown p then ((handleFeedbackChange ''override_diagnosis'' v p, c), b)
             else x
         | EditComment v \<Rightarrow>
             if feedback_form_shown p then ((handleFeedbackChange ''feedback_text'' v p, c), b)
             else x
         | PressSubmit \<Rightarrow>
             if feedback_form_shown p \<and> \<not> submit_disabled p then handleSubmitFeedback (p, c) b
             else x))"

definition detail_run ::
  "detail_event list \<Rightarrow> (detail_page \<times> client) \<times> browser \<Rightarrow> (detail_page \<times> client) \<times> browser" where
  "detail_run evs x = foldl (\<lambda>y ev. detail_step ev y) x evs"

text \<open>The ratings that feedback submissions on the wire carry.\<close>

definition submitted_rating :: "request \<Rightarrow> jsval list" where
  "submitted_rating r =
     (if req_method r = POST \<and> req_url r = [Text ''/feedback/'']
      then (case req_body r of JsonBody d \<Rightarrow> [field d ''rating''] | _ \<Rightarrow> [])
      else [])"

definition submitted_ratings :: "browser \<Rightarrow> jsval list" where
  "submitted_ratings b = concat (map submitted_rating (sent b))"

fun rating_1_to_5 :: "jsval \<Rightarrow> bool" where
  "rating_1_to_5 (JNum n) = (1 \<le> n \<and> n \<le> 5)"
| "rating_1_to_5 v = False"

definition client_initial :: client where
  "client_initial = \<lparr>notices = [], queries = Map.empty\<rparr>"

text \<open>The invariant of the feedback form: the rating held by the form, and the ratings sent.\<close>

definition rating_0_to_5 :: "detail_page \<Rightarrow> bool" where
  "rating_0_to_5 p = (\<exists>n. field (JObj (feedbackData p)) ''rating'' = JNum n \<and> 0 \<le> n \<and> n \<le> 5)"

definition feedback_inv :: "(detail_page \<times> client) \<times> browser \<Rightarrow> bool" where
  "feedback_inv x = (rating_0_to_5 (fst (fst x)) \<and> list_all rating_1_to_5 (submitted_ratings (snd x)))"

section \<open>Mutations of the other pages\<close>

text \<open>\<open>error.response?.data?.detail\<close>.\<close>

definition optional_detail :: "js_error \<Rightarrow> jsval" where
  "optional_detail e =
     (case error_response e of None \<Rightarrow> JUndefined | Some r \<Rightarrow> field (resp_data r) ''detail'')"

subsection \<open>pages/UserManagement.js\<close>

text \<open>The component state that the callbacks of the three mutations set.\<close>

record um_page =
  isAddUserModalOpen :: bool
  isEditUserModalOpen :: bool
  selectedUser :: jsval
  newUserData :: jsval

definition blank_user :: jsval where
  "blank_user = JObj [(''username'', JStr []), (''email'', JStr []), (''password'', JStr []),
                      (''full_name'', JStr []), (''role'', JStr ''doctor'')]"

definition users_key :: query_key where
  "users_key = [JStr ''users'']"

definition um_initial :: um_page where
  "um_initial = \<lparr>isAddUserModalOpen = False, isEditUserModalOpen = False, selectedUser = JNull,
                 newUserData = blank_user\<rparr>"

definition invalidate :: "query_key \<Rightarrow> client \<Rightarrow> client" where
  "invalidate k c = c\<lparr>queries := invalidateQueries k (queries c)\<rparr>"

definition addUserMutation ::
  "jsval \<Rightarrow> um_page \<times> client \<Rightarrow> browser \<Rightarrow> bool \<times> (um_page \<times> client) \<times> browser" where
  "addUserMutation userData =
     mutate (CreateUser userData)
       (\<lambda>pc. ((fst pc)\<lparr>isAddUserModalOpen := False, newUserData := blank_user\<rparr>,
               invalidate users_key (notify (ToastSuccess ''User created successfully'') (snd pc))))
       (\<lambda>e pc. (fst pc,
               notify (ToastErrorValue (js_or (optional_detail e) (JStr ''Failed to create user'')))
                      (snd pc)))"

definition updateUserMutation ::
  "jsval \<Rightarrow> jsval \<Rightarrow> um_page \<times> client \<Rightarrow> browser \<Rightarrow> bool \<times> (um_page \<times> client) \<times> browser" where
  "updateUserMutation ident data =
     mutate (UpdateUser ident data)
       (\<lambda>pc. ((fst pc)\<lparr>isEditUserModalOpen := False, selectedUser := JNull\<rparr>,
               invalidate users_key (notify (ToastSuccess ''User updated successfully'') (snd pc))))
       (\<lambda>e pc. (fst pc,
               notify (ToastErrorValue (js_or (optional_detail e) (JStr ''Failed to update user'')))
                      (snd pc)))"

definition deleteUserMutation ::
  "jsval \<Rightarrow> um_page \<times> client \<Rightarrow> browser \<Rightarrow> bool \<times> (um_page \<times> client) \<times> browser" where
  "deleteUserMutation ident =
     mutate (DeleteUser ident)
       (\<lambda>pc. (fst pc,
               invalidate users_key (notify (ToastSuccess ''User deleted successfully'') (snd pc))))
       (\<lambda>e pc. (fst pc,
               notify (ToastErrorValue (js_or (optional_detail e) (JStr ''Failed to delete user'')))
                      (snd pc)))"

datatype user_mutation = AddUser jsval | EditUser jsval jsval | RemoveUser jsval

fun user_mutation_call :: "user_mutation \<Rightarrow> service_call" where
  "user_mutation_call (AddUser userData) = CreateUser userData"
| "user_mutation_call (EditUser ident data) = UpdateUser ident data"
| "user_mutation_call (RemoveUser ident) = DeleteUser ident"

fun run_user_mutation ::
  "user_mutation \<Rightarrow> um_page \<times> client \<Rightarrow> browser \<Rightarrow> bool \<times> (um_page \<times> client) \<times> browser" where
  "run_user_mutation (AddUser userData) = addUserMutation userData"
| "run_user_mutation (EditUser ident data) = updateUserMutation ident data"
| "run_user_mutation (RemoveUser ident) = deleteUserMutation ident"

subsection \<open>pages/UserProfile.js\<close>

definition blank_passwords :: jsval where
  "blank_passwords = JObj [(''current_password'', JStr []), (''new_password'', JStr []),
                           (''confirm_password'', JStr [])]"

text \<open>The page state here is \<open>passwordData\<close>; \<open>uid\<close> is \<open>user.id\<close>.\<close>

definition updateProfileMutation ::
  "jsval \<Rightarrow> jsval \<Rightarrow> jsval \<times> client \<Rightarrow> browser \<Rightarrow> bool \<times> (jsval \<times> client) \<times> browser" where
  "updateProfileMutation uid data =
     mutate (UpdateUser uid data)
       (\<lambda>pc. (fst pc, notify (ToastSuccess ''Profile updated successfully'') (snd pc)))
       (\<lambda>e pc. (fst pc, notify (ToastError ''Failed to update profile'') (snd pc)))"

definition changePasswordMutation ::
  "jsval \<Rightarrow> jsval \<Rightarrow> jsval \<times> client \<Rightarrow> browser \<Rightarrow> bool \<times> (jsval \<times> client) \<times> browser" where
  "changePasswordMutation uid data =
     mutate (UpdateUser uid (JObj [(''password'', field data ''new_password'')]))
       (\<lambda>pc. (blank_passwords, notify (ToastSuccess ''Password changed successfully'') (snd pc)))
       (\<lambda>e pc. (fst pc, notify (ToastError ''Failed to change password'') (snd pc)))"

section \<open>The endpoints of the external interface\<close>

text \<open>
  An endpoint as the specification writes it, such as \<open>/feedback/{id}\<close> with its
  methods: literal text and \<open>{id}\<close> parameters. An endpoint written without methods
  admits every method.
\<close>

datatype pattern_part = PText string | PParam

type_synonym endpoint = "pattern_part list \<times> http_method list"

text \<open>
  The list of the specification's external-interface section, in its words:
  \<open>/auth/token\<close> (POST), \<open>/auth/me\<close>, \<open>/images/\<close> (GET/POST upload),
  \<open>/images/{id}\<close>, \<open>/predictions/\<close> (GET/POST), \<open>/predictions/{id}\<close>,
  \<open>/feedback/{id}\<close> (GET/POST/PUT/DELETE), \<open>/reports/\<close> (GET/POST),
  \<open>/users/\<close> (GET/POST/PUT/DELETE).
\<close>

definition spec_endpoints :: "endpoint list" where
  "spec_endpoints =
     [([PText ''/auth/token''], [POST]),
      ([PText ''/auth/me''], []),
      ([PText ''/images/''], [GET, POST]),
      ([PText ''/images/'', PParam], []),
      ([PText ''/predictions/''], [GET, POST]),
      ([PText ''/predictions/'', PParam], []),
      ([PText ''/feedback/'', PParam], [GET, POST, PUT, DELETE]),
      ([PText ''/reports/''], [GET, POST]),
      ([PText ''/users/''], [GET, POST, PUT, DELETE])]"

text \<open>The endpoints that the services use beyond that list.\<close>

definition code_only_endpoints :: "endpoint list" where
  "code_only_endpoints =
     [([PText ''/auth/verify-token''], [POST]),
      ([PText ''/images/upload''], [POST]),
      ([PText ''/feedback/''], [POST]),
      ([PText ''/reports/'', PParam], [GET]),
      ([PText ''/users/'', PParam], [GET, PUT, DELETE])]"

text \<open>The path of a URL: the template without its query string.\<close>

fun url_path :: "url_part list \<Rightarrow> url_part list" where
  "url_path [] = []"
| "url_path (Text t # ps) =
     (if CHR ''?'' \<in> set t then [Text (takeWhile (\<lambda>c. c \<noteq> CHR ''?'') t)]
      else Text t # url_path ps)"
| "url_path (p # ps) = p # url_path ps"

fun part_matches :: "url_part \<Rightarrow> pattern_part \<Rightarrow> bool" where
  "part_matches (Text t) (PText t') = (t = t')"
| "part_matches (Interp v) PParam = True"
| "part_matches (InterpNumber v) PParam = True"
| "part_matches p q = False"

definition targets :: "request \<Rightarrow> endpoint \<Rightarrow> bool" where
  "targets r e =
     (list_all2 part_matches (url_path (req_url r)) (fst e) \<and>
      (snd e = [] \<or> req_method r \<in> set (snd e)))"

definition listed_in :: "endpoint list \<Rightarrow> request \<Rightarrow> bool" where
  "listed_in es r = list_ex (targets r) es"

text \<open>The service functions whose request is outside the specification's list.\<close>

fun beyond_spec :: "service_call \<Rightarrow> bool" where
  "beyond_spec VerifyToken = True"
| "beyond_spec (UploadImage d) = True"
| "beyond_spec (CreateFeedback d) = True"
| "beyond_spec (GetReport i) = True"
| "beyond_spec (GetUser i) = True"
| "beyond_spec (UpdateUser i d) = True"
| "beyond_spec (DeleteUser i) = True"
| "beyond_spec c = False"

section \<open>Concrete sessions\<close>

text \<open>Files, answers of the network, browsers and signed-in users for the examples below.\<close>

definition png_1k :: js_file where
  "png_1k = \<lparr>file_name = ''scan.png'', file_type = ''image/png'', file_size = 1024\<rparr>"

definition ok_with_id :: "int \<Rightarrow> reply" where
  "ok_with_id n = Reply \<lparr>resp_status = 200, resp_data = JObj [(''id'', JNum n)]\<rparr>"

definition browser_with :: "reply list \<Rightarrow> browser" where
  "browser_with rs = \<lparr>localStorage = Map.empty, location_href = ''/upload'',
                        axios_default_auth = None, sent = [], replies = rs\<rparr>"

definition png_big :: js_file where
  "png_big = \<lparr>file_name = ''big.png'', file_type = ''image/png'', file_size = 16 * 1024 * 1024 + 1\<rparr>"

definition status_reply :: "nat \<Rightarrow> jsval \<Rightarrow> reply" where
  "status_reply s d = Reply \<lparr>resp_status = s, resp_data = d\<rparr>"

definition unauthorized :: response where
  "unauthorized = \<lparr>resp_status = 401, resp_data = JObj [(''detail'', JStr ''Not authenticated'')]\<rparr>"

definition logged_in_browser :: "reply list \<Rightarrow> browser" where
  "logged_in_browser rs = (browser_with rs)\<lparr>localStorage := [''token'' \<mapsto> ''abc'']\<rparr>"

definition bad_credentials :: response where
  "bad_credentials =
     \<lparr>resp_status = 401, resp_data = JObj [(''detail'', JStr ''Incorrect username or password'')]\<rparr>"

definition signed_in :: "string \<Rightarrow> auth_state" where
  "signed_in role =
     \<lparr>user = JObj [(''id'', JNum 2), (''username'', JStr ''kim''), (''role'', JStr role)],
      isAuthenticated = True, isLoading = False, authError = JNull\<rparr>"

text \<open>A cache that holds the feedback query of prediction 3 and the users query.\<close>

definition feedback_3_key :: query_key where
  "feedback_3_key = [JStr ''feedback'', JStr ''3'']"

definition client_with_feedback_3 :: client where
  "client_with_feedback_3 =
     \<lparr>notices = [],
      queries = [feedback_3_key \<mapsto> \<lparr>entry_data = JNull, entry_invalidated = False\<rparr>,
                 users_key \<mapsto> \<lparr>entry_data = JArr [], entry_invalidated = False\<rparr>]\<rparr>"

definition feedback_3 :: jsval where
  "feedback_3 = JObj [(''diagnosis_id'', JNum 3), (''feedback_text'', JStr ''agree''),
                      (''override_diagnosis'', JStr []), (''rating'', JNum 4)]"

chapter \<open>Verification\<close>

section \<open>The shared client: what one call puts on the wire\<close>

lemma interceptor_keeps:
  "req_method (request_interceptor b c) = req_method c"
  "req_url (request_interceptor b c) = req_url c"
  "req_body (request_interceptor b c) = req_body c"
  "req_baseURL (request_interceptor b c) = req_baseURL c"
  by (simp_all add: request_interceptor_def split: option.splits)

lemma api_loop_sent:
  assumes key: "\<And>b c. key (request_interceptor b c) = key c"
  shows "\<exists>n>0. map key (sent (snd (api_loop rs c b))) = map key (sent b) @ replicate n (key c)"
proof (induction rs arbitrary: c b)
  case Nil
  have "map key (sent (snd (api_loop [] c b))) = map key (sent b) @ replicate 1 (key c)"
    by (simp add: key)
  then show ?case by blast
next
  case (Cons r rs)
  let ?c = "request_interceptor b c"
  let ?b = "b\<lparr>sent := sent b @ [?c], replies := rs\<rparr>"
  from Cons.IH [of ?c ?b] obtain n where n: "n > 0"
    "map key (sent (snd (api_loop rs ?c ?b))) = map key (sent ?b) @ replicate n (key ?c)"
    by blast
  have rec: "map key (sent (snd (api_loop rs ?c ?b))) = map key (sent b) @ replicate (Suc n) (key c)"
    using n(2) by (simp add: key replicate_append_same)
  have one: "map key (sent ?b) = map key (sent b) @ replicate 1 (key c)"
    by (simp add: key)
  show ?case
  proof (cases r)
    case NetworkError
    then show ?thesis using one by (intro exI [of _ 1]) (simp add: Let_def)
  next
    case (Reply resp)
    show ?thesis
    proof (cases "is_redirect (resp_status resp)")
      case True
      then have "api_loop (r # rs) c b = api_loop rs ?c ?b"
        using Reply by (auto simp add: Let_def is_redirect_def)
      then show ?thesis using rec by (intro exI [of _ "Suc n"]) simp
    next
      case False
      then show ?thesis using Reply one
        by (intro exI [of _ 1]) (simp add: Let_def key)
    qed
  qed
qed

section \<open>The model requested after an upload\<close>

lemma requested_model_interceptor:
  "requested_model (request_interceptor b c) = requested_model c"
  by (simp add: requested_model_def interceptor_keeps)

lemma call_service_models:
  "\<exists>n>0. prediction_models (snd (call_service c b)) =
           prediction_models b @ concat (replicate n (requested_model (service_request c)))"
proof -
  from api_loop_sent [of requested_model "replies b" "service_request c" b]
  obtain n where "n > 0"
    "map requested_model (sent (snd (api_loop (replies b) (service_request c) b))) =
     map requested_model (sent b) @ replicate n (requested_model (service_request c))"
    using requested_model_interceptor by blast
  then show ?thesis
    unfolding prediction_models_def call_service_def api_def
    by (intro exI [of _ n]) simp
qed

lemma upload_request_no_model:
  "requested_model (service_request (UploadImage d)) = []"
  by (simp add: requested_model_def api_post_with_def api_post_def)

lemma prediction_request_model:
  "requested_model (service_request (CreatePrediction (prediction_request_data i t))) =
     [JStr (getModelNameForImageType t)]"
  by (simp add: requested_model_def api_post_def prediction_request_data_def field_def)

lemma call_upload_models:
  "prediction_models (snd (call_service (UploadImage d) b)) = prediction_models b"
  using call_service_models [of "UploadImage d" b] by (auto simp: upload_request_no_model simp del: service_request.simps)

lemma call_prediction_models:
  "\<exists>n>0. prediction_models (snd (call_service (CreatePrediction (prediction_request_data i t)) b)) =
           prediction_models b @ replicate n (JStr (getModelNameForImageType t))"
proof -
  have "concat (replicate n [x]) = replicate n x" for n and x :: jsval
    by (induction n) simp_all
  then show ?thesis
    using call_service_models [of "CreatePrediction (prediction_request_data i t)" b]
    by (simp add: prediction_request_model del: service_request.simps)
qed

lemma getModelNameForImageType_cases:
  "getModelNameForImageType t = (if t = ''brain-mri'' then ''brain-mri'' else ''chest-xray'')"
  by (simp add: getModelNameForImageType_def)

lemma prediction_models_upd [simp]:
  "prediction_models (b\<lparr>localStorage := l\<rparr>) = prediction_models b"
  by (simp add: prediction_models_def)

text \<open>
  Claim C10. The model named by the upload page is \<open>brain-mri\<close> exactly for the image
  type \<open>brain-mri\<close> and \<open>chest-xray\<close> for every other type (so also for
  \<open>x-ray\<close>, \<open>ct-scan\<close>, \<open>mri\<close> and \<open>ultrasound\<close>); every prediction request
  that \<open>handleUpload\<close> puts on the wire names that model for the selected type, and at
  least one such request is sent once the upload has resolved with an image id.
\<close>

theorem upload_prediction_model:
  "(getModelNameForImageType t = ''brain-mri'') = (t = ''brain-mri'') \<and>
   getModelNameForImageType t = (if t = ''brain-mri'' then ''brain-mri'' else ''chest-xray'') \<and>
   (\<exists>n. prediction_models (snd (handleUpload s b)) =
          prediction_models b @
            replicate n (JStr (if imageType s = ''brain-mri'' then ''brain-mri'' else ''chest-xray'')) \<and>
        (upload_stored s b \<longrightarrow> 0 < n))"
proof (intro conjI)
  show "(getModelNameForImageType t = ''brain-mri'') = (t = ''brain-mri'')"
    by (simp add: getModelNameForImageType_cases)
  show "getModelNameForImageType t = (if t = ''brain-mri'' then ''brain-mri'' else ''chest-xray'')"
    by (rule getModelNameForImageType_cases)
next
  let ?m = "JStr (if imageType s = ''brain-mri'' then ''brain-mri'' else ''chest-xray'')"
  have m: "JStr (getModelNameForImageType (imageType s)) = ?m"
    by (simp add: getModelNameForImageType_cases)
  show "\<exists>n. prediction_models (snd (handleUpload s b)) = prediction_models b @ replicate n ?m \<and>
            (upload_stored s b \<longrightarrow> 0 < n)"
  proof (cases "selectedFile s")
    case None
    then show ?thesis
      by (intro exI [of _ 0]) (simp add: handleUpload_def upload_stored_def)
  next
    case (Some f)
    obtain out b1 where up: "call_service (UploadImage (FileBody f)) b = (out, b1)"
      by (cases "call_service (UploadImage (FileBody f)) b")
    have b1: "prediction_models b1 = prediction_models b"
      using call_upload_models [of "FileBody f" b] up by simp
    show ?thesis
    proof (cases "\<exists>r i. out = Resolved r \<and> get_prop (resp_data r) ''id'' = Some i")
      case False
      then have "snd (handleUpload s b) = b1 \<and> \<not> upload_stored s b"
        using Some up
        by (cases out) (auto simp: handleUpload_def upload_stored_def Let_def)
      then show ?thesis using b1 by (intro exI [of _ 0]) simp
    next
      case True
      then obtain r i where r: "out = Resolved r" "get_prop (resp_data r) ''id'' = Some i"
        by blast
      let ?call = "call_service (CreatePrediction (prediction_request_data i (imageType s))) b1"
      from call_prediction_models [of i "imageType s" b1] obtain n where n: "n > 0"
        "prediction_models (snd ?call) = prediction_models b1 @ replicate n ?m"
        using m by auto
      have "snd (handleUpload s b) = snd ?call"
        using Some up r
        by (cases ?call)
           (auto simp: handleUpload_def Let_def split: promise.splits option.splits)
      then show ?thesis using n b1 by (intro exI [of _ n]) simp
    qed
  qed
qed

lemmas client_defs =
  call_service_def api_def api_post_with_def api_post_def api_get_def api_put_def api_delete_def
  api_headers_def request_interceptor_def validateStatus_def is_redirect_def set_header_def
  browser_with_def Let_def

lemma upload_stored_example:
  "upload_stored (upload_initial\<lparr>selectedFile := Some png_1k, imageType := ''brain-mri''\<rparr>)
       (browser_with [ok_with_id 7, ok_with_id 9])"
  by (simp add: upload_stored_def upload_initial_def ok_with_id_def client_defs)

lemma upload_brain_mri_example: "prediction_models (snd (handleUpload (upload_initial\<lparr>selectedFile := Some png_1k, imageType := ''brain-mri''\<rparr>)
       (browser_with [ok_with_id 7, ok_with_id 9]))) = [JStr ''brain-mri'']"
  by (simp add: handleUpload_def upload_initial_def ok_with_id_def client_defs prediction_models_def requested_model_def
   prediction_request_data_def getModelNameForImageType_def field_def toast_add_def)

theorem upload_prediction_model_witness:
  "upload_stored (upload_initial\<lparr>selectedFile := Some png_1k, imageType := ''brain-mri''\<rparr>)
       (browser_with [ok_with_id 7, ok_with_id 9]) \<and>
   (\<exists>n>0. prediction_models
            (snd (handleUpload (upload_initial\<lparr>selectedFile := Some png_1k, imageType := ''brain-mri''\<rparr>)
                    (browser_with [ok_with_id 7, ok_with_id 9]))) =
          replicate n (JStr ''brain-mri''))"
proof -
  let ?s = "upload_initial\<lparr>selectedFile := Some png_1k, imageType := ''brain-mri''\<rparr>"
  let ?b = "browser_with [ok_with_id 7, ok_with_id 9]"
  have h: "upload_stored ?s ?b"
    by (simp add: upload_stored_def upload_initial_def ok_with_id_def client_defs)
  have e: "prediction_models ?b = []"
    by (simp add: prediction_models_def browser_with_def)
  have t: "imageType ?s = ''brain-mri''" by simp
  from upload_prediction_model [of "''brain-mri''" ?s ?b] h e show ?thesis
    unfolding t by auto
qed

section \<open>Oversized files on the upload page\<close>

lemma body_file_interceptor:
  "body_file (request_interceptor b c) = body_file c"
  by (simp add: interceptor_keeps)

lemma call_service_files:
  "\<exists>n>0. uploaded_files (snd (call_service c b)) =
           uploaded_files b @ concat (replicate n (body_file (service_request c)))"
proof -
  from api_loop_sent [of body_file "replies b" "service_request c" b]
  obtain n where "n > 0"
    "map body_file (sent (snd (api_loop (replies b) (service_request c) b))) =
     map body_file (sent b) @ replicate n (body_file (service_request c))"
    using body_file_interceptor by blast
  then show ?thesis
    unfolding uploaded_files_def call_service_def api_def
    by (intro exI [of _ n]) simp
qed

lemma call_service_files_subset:
  "set (uploaded_files (snd (call_service c b))) \<subseteq>
     set (uploaded_files b) \<union> set (body_file (service_request c))"
  using call_service_files [of c b] by (auto simp del: service_request.simps body_file.simps)

lemma upload_request_file:
  "body_file (service_request (UploadImage (FileBody g))) = [g]"
  by (simp add: api_post_with_def api_post_def)

lemma prediction_request_file:
  "body_file (service_request (CreatePrediction d)) = []"
  by (simp add: api_post_def)

lemma selectedFile_toast_add [simp]: "selectedFile (toast_add t s) = selectedFile s"
  by (simp add: toast_add_def)

lemma preview_toast_add [simp]: "preview (toast_add t s) = preview s"
  by (simp add: toast_add_def)

lemma selectedFile_upload_catch [simp]: "selectedFile (upload_catch e s) = selectedFile s"
  by (simp add: upload_catch_def Let_def split: option.splits)

lemma handleUpload_selectedFile:
  "selectedFile (fst (handleUpload s b)) = selectedFile s"
  by (auto simp: handleUpload_def Let_def split: option.splits prod.splits promise.splits)

lemma handleUpload_files:
  "set (uploaded_files (snd (handleUpload s b))) \<subseteq>
     set (uploaded_files b) \<union> set_option (selectedFile s)"
proof (cases "selectedFile s")
  case None
  then show ?thesis by (simp add: handleUpload_def)
next
  case (Some g)
  obtain out b1 where up: "call_service (UploadImage (FileBody g)) b = (out, b1)"
    by (cases "call_service (UploadImage (FileBody g)) b")
  have b1: "set (uploaded_files b1) \<subseteq> set (uploaded_files b) \<union> {g}"
    using call_service_files_subset [of "UploadImage (FileBody g)" b] up
    by (simp add: upload_request_file del: service_request.simps body_file.simps)
  have b2: "set (uploaded_files (snd (call_service (CreatePrediction d) b1))) \<subseteq> set (uploaded_files b1)" for d
    using call_service_files_subset [of "CreatePrediction d" b1]
    by (simp add: prediction_request_file del: service_request.simps body_file.simps)
  have "snd (handleUpload s b) = b1 \<or>
        (\<exists>d. snd (handleUpload s b) = snd (call_service (CreatePrediction d) b1))"
    using Some up
    by (auto simp: handleUpload_def Let_def split: option.splits prod.splits promise.splits)
       (metis snd_conv)+
  then show ?thesis using b1 b2 Some by (auto simp del: service_request.simps) blast+
qed

lemma onDrop_oversize:
  assumes "16 * 1024 * 1024 < file_size f"
  shows "\<exists>msg. onDrop (f # rest) s = Inr (s\<lparr>toasts := toasts s @ [ToastError msg]\<rparr>)"
proof (cases "startsWith (file_type f) ''image/''")
  case True
  with assms show ?thesis
    by (intro exI [of _ "''File size exceeds 16MB limit''"]) (simp add: onDrop_def toast_add_def)
next
  case False
  then show ?thesis
    by (intro exI [of _ "''Please upload a valid image file''"]) (simp add: onDrop_def toast_add_def)
qed

lemma onDrop_selects_small:
  assumes "onDrop fs s = Inr s'" "selectedFile s' = Some g"
  shows "selectedFile s = Some g \<or> file_size g \<le> 16 * 1024 * 1024"
  using assms by (auto simp: onDrop_def split: list.splits if_splits)

lemma upload_step_never_selected:
  assumes big: "16 * 1024 * 1024 < file_size f" and inv: "never_selected f sb"
  shows "never_selected f (upload_step ev sb)"
proof -
  obtain s b where sb: "sb = (s, b)" by (cases sb)
  from inv sb have s: "selectedFile s \<noteq> Some f" and b: "f \<notin> set (uploaded_files b)"
    by (simp_all add: never_selected_def)
  show ?thesis
  proof (cases ev)
    case (Drop fs)
    show ?thesis
    proof (cases "onDrop fs s")
      case (Inl e)
      then show ?thesis using Drop sb inv by (simp add: upload_step_def)
    next
      case (Inr s')
      have "selectedFile s' \<noteq> Some f"
        using onDrop_selects_small [OF Inr, of f] s big by auto
      then show ?thesis using Drop sb Inr b by (simp add: upload_step_def never_selected_def)
    qed
  next
    case ClearFile
    then show ?thesis using sb b by (simp add: upload_step_def never_selected_def clearFile_def)
  next
    case (SelectImageType t)
    then show ?thesis using sb s b by (simp add: upload_step_def never_selected_def)
  next
    case ClickUpload
    have "f \<notin> set (uploaded_files (snd (handleUpload s b)))"
      using handleUpload_files [of s b] s b by (cases "selectedFile s") auto
    then show ?thesis using ClickUpload sb s b handleUpload_selectedFile [of s b]
      by (simp add: upload_step_def never_selected_def)
  qed
qed

lemma upload_run_never_selected:
  assumes "16 * 1024 * 1024 < file_size f" "never_selected f sb"
  shows "never_selected f (upload_run evs sb)"
  using assms(2) unfolding upload_run_def
  by (induction evs arbitrary: sb) (simp_all add: upload_step_never_selected [OF assms(1)])

text \<open>
  Claim C1. A file of more than 16 * 1024 * 1024 bytes handed to \<open>onDrop\<close> is
  rejected: the handler only adds an error toast, so the selected file and the preview
  stay as they were; and whatever the user does on the page afterwards, the file never
  becomes the selected one and no request on the wire carries it.
\<close>

theorem oversize_file_rejected:
  assumes "16 * 1024 * 1024 < file_size f" and "f \<notin> set (uploaded_files b)"
  shows "(\<exists>msg. onDrop (f # rest) s = Inr (s\<lparr>toasts := toasts s @ [ToastError msg]\<rparr>)) \<and>
         selectedFile (fst (upload_run evs (upload_initial, b))) \<noteq> Some f \<and>
         f \<notin> set (uploaded_files (snd (upload_run evs (upload_initial, b))))"
proof -
  have "never_selected f (upload_initial, b)"
    using assms(2) by (simp add: never_selected_def upload_initial_def)
  from upload_run_never_selected [OF assms(1) this, of evs] onDrop_oversize [OF assms(1)]
  show ?thesis by (simp add: never_selected_def)
qed

lemmas upload_page_defs =
  upload_run_def upload_step_def onDrop_def handleUpload_def startsWith_def toast_add_def
  upload_initial_def uploaded_files_def png_big_def png_1k_def ok_with_id_def
  prediction_request_data_def

lemma upload_session_example:
  "uploaded_files (snd (upload_run [Drop [png_big], ClickUpload, Drop [png_1k], ClickUpload]
                         (upload_initial, browser_with [ok_with_id 7, ok_with_id 9]))) = [png_1k]"
  by (simp add: upload_page_defs client_defs)

theorem oversize_file_rejected_witness:
  "16 * 1024 * 1024 < file_size png_big \<and>
   png_big \<notin> set (uploaded_files (browser_with [ok_with_id 7, ok_with_id 9])) \<and>
   (\<exists>msg. onDrop [png_big] upload_initial =
            Inr (upload_initial\<lparr>toasts := toasts upload_initial @ [ToastError msg]\<rparr>)) \<and>
   png_big \<notin> set (uploaded_files (snd (upload_run
       [Drop [png_big], ClickUpload, Drop [png_1k], ClickUpload]
       (upload_initial, browser_with [ok_with_id 7, ok_with_id 9]))))"
proof -
  have h1: "16 * 1024 * 1024 < file_size png_big"
    by (simp add: png_big_def)
  have h2: "png_big \<notin> set (uploaded_files (browser_with [ok_with_id 7, ok_with_id 9]))"
    by (simp add: uploaded_files_def browser_with_def)
  from oversize_file_rejected [OF h1 h2, of "[]" upload_initial] h1 h2 show ?thesis
    by blast
qed

section \<open>Failed answers at the shared client\<close>






lemma api_loop_unauthorized:
  assumes "list_all redirect_reply pre" "resp_status r = 401"
  shows "fst (api_loop (pre @ Reply r # rest) config b) = Rejected (AxiosError (Some r)) \<and>
         localStorage (snd (api_loop (pre @ Reply r # rest) config b)) =
           (localStorage b)(''token'' := None) \<and>
         location_href (snd (api_loop (pre @ Reply r # rest) config b)) = ''/login'' \<and>
         replies (snd (api_loop (pre @ Reply r # rest) config b)) = rest"
  using assms(1)
proof (induction pre arbitrary: config b)
  case Nil
  then show ?case using assms(2) by (simp add: Let_def validateStatus_def)
next
  case (Cons x pre)
  from Cons.prems have x: "redirect_reply x" and pre: "list_all redirect_reply pre"
    by simp_all
  let ?c = "request_interceptor b config"
  let ?b = "b\<lparr>sent := sent b @ [?c], replies := pre @ Reply r # rest\<rparr>"
  have "api_loop ((x # pre) @ Reply r # rest) config b = api_loop (pre @ Reply r # rest) ?c ?b"
    using x by (cases x) (auto simp: Let_def is_redirect_def)
  then show ?case using Cons.IH [OF pre, of ?c ?b] by simp
qed

text \<open>
  Claim C4. When the answer to a request of the shared client has status 401 (directly,
  or after answers the client has followed as redirects), the client removes \<open>token\<close>
  from \<open>localStorage\<close>, leaving the other keys, sets the location to \<open>/login\<close>, and
  rejects with the error that carries that response.
\<close>

theorem unauthorized_clears_token:
  assumes "replies b = pre @ Reply r # rest" and "list_all redirect_reply pre"
    and "resp_status r = 401"
  shows "fst (api config b) = Rejected (AxiosError (Some r)) \<and>
         localStorage (snd (api config b)) = (localStorage b)(''token'' := None) \<and>
         location_href (snd (api config b)) = ''/login''"
  using api_loop_unauthorized [OF assms(2,3), of rest config b] assms(1)
  by (simp add: api_def)

theorem unauthorized_clears_token_witness:
  "replies (logged_in_browser [Reply unauthorized]) = [] @ Reply unauthorized # [] \<and>
   list_all redirect_reply [] \<and> resp_status unauthorized = 401 \<and>
   localStorage (logged_in_browser [Reply unauthorized]) ''token'' = Some ''abc'' \<and>
   fst (api (service_request (GetUsers JUndefined)) (logged_in_browser [Reply unauthorized])) =
     Rejected (AxiosError (Some unauthorized)) \<and>
   localStorage (snd (api (service_request (GetUsers JUndefined))
                          (logged_in_browser [Reply unauthorized]))) ''token'' = None \<and>
   location_href (snd (api (service_request (GetUsers JUndefined))
                           (logged_in_browser [Reply unauthorized]))) = ''/login''"
proof -
  let ?b = "logged_in_browser [Reply unauthorized]"
  have h1: "replies ?b = [] @ Reply unauthorized # []"
    by (simp add: logged_in_browser_def browser_with_def)
  have h2: "list_all redirect_reply []" by simp
  have h3: "resp_status unauthorized = 401" by (simp add: unauthorized_def)
  have t: "localStorage ?b ''token'' = Some ''abc''"
    by (simp add: logged_in_browser_def)
  from unauthorized_clears_token [OF h1 h2 h3, of "service_request (GetUsers JUndefined)"]
    h1 h2 h3 t show ?thesis
    by (simp del: service_request.simps)
qed

section \<open>Failed logins\<close>

lemma truthy_get_prop: "truthy v \<Longrightarrow> get_prop v k \<noteq> None"
  by (cases v) (simp_all split: option.splits)

lemma falsy_no_detail: "\<not> truthy v \<Longrightarrow> get_prop v k = Some d \<Longrightarrow> \<not> truthy d"
  by (cases v) (auto split: option.splits)

lemma login_error_message_detail:
  "login_error_message e =
     (case detail_of e of
        Some d \<Rightarrow> d
      | None \<Rightarrow> if (case error_response e of None \<Rightarrow> False | Some r \<Rightarrow> truthy (resp_data r))
                then JStr ''Login failed'' else JStr ''Network error. Please try again.'')"
proof (cases "error_response e")
  case None
  then show ?thesis by (simp add: login_error_message_def detail_of_def)
next
  case (Some r)
  show ?thesis
  proof (cases "truthy (resp_data r)")
    case True
    then obtain d where d: "get_prop (resp_data r) ''detail'' = Some d"
      using truthy_get_prop [of "resp_data r" "''detail''"] by auto
    then show ?thesis using Some True
      by (simp add: login_error_message_def detail_of_def field_def js_or_def)
  next
    case False
    then show ?thesis using Some falsy_no_detail [OF False, of "''detail''"]
      by (auto simp: login_error_message_def detail_of_def split: option.splits)
  qed
qed

lemma login_error_message_truthy: "truthy (login_error_message e)"
  by (simp add: login_error_message_detail detail_of_def split: option.splits)

lemma axios_request_localStorage:
  "localStorage (snd (axios_request c b)) = localStorage b"
  by (simp add: axios_request_def Let_def split: list.splits reply.splits)

lemma api_loop_localStorage:
  "localStorage (snd (api_loop rs c b)) = localStorage b \<or>
   localStorage (snd (api_loop rs c b)) = (localStorage b)(''token'' := None)"
proof (induction rs arbitrary: c b)
  case Nil
  then show ?case by simp
next
  case (Cons x rs)
  let ?c = "request_interceptor b c"
  let ?b = "b\<lparr>sent := sent b @ [?c], replies := rs\<rparr>"
  from Cons.IH [of ?c ?b] show ?case
    by (cases x) (auto simp: Let_def)
qed

text \<open>
  Claim C2. When the POST to \<open>/auth/token\<close> rejects, \<open>login\<close> resolves with
  \<open>success = false\<close> and an error message, stores that message as the auth error, and
  changes nothing else but \<open>isLoading\<close>: \<open>localStorage\<close> and the axios default
  header are as before, and \<open>user\<close> and \<open>isAuthenticated\<close> keep their values, so a
  user that was unset stays unset. The message is never falsy: it is the \<open>detail\<close>
  of the response when that field is there (and truthy, as \<open>||\<close> reads it), and one
  of the two fallback messages otherwise. \<open>authService.login\<close>, the second login
  path, rejects with the same error and writes nothing either: its \<open>localStorage\<close> is
  unchanged or, after a 401, has lost the token.
\<close>

theorem login_failure_no_token:
  "(axios_request (login_request username password) b = (Rejected e, b1) \<longrightarrow>
      login username password st b =
        (Resolved \<lparr>success = False, error = login_error_message e\<rparr>,
         st\<lparr>isLoading := False, authError := login_error_message e\<rparr>, b1) \<and>
      localStorage b1 = localStorage b \<and>
      axios_default_auth b1 = axios_default_auth b \<and>
      truthy (login_error_message e) \<and>
      (case detail_of e of
         Some d \<Rightarrow> login_error_message e = d
       | None \<Rightarrow> login_error_message e = JStr ''Login failed'' \<or>
                 login_error_message e = JStr ''Network error. Please try again.'')) \<and>
   (call_service (Login username password) b = (Rejected e', b2) \<longrightarrow>
      authService_login stringify username password b = (Rejected e', b2) \<and>
      (localStorage b2 = localStorage b \<or> localStorage b2 = (localStorage b)(''token'' := None)))"
proof (intro conjI impI)
  assume r: "axios_request (login_request username password) b = (Rejected e, b1)"
  show "login username password st b =
        (Resolved \<lparr>success = False, error = login_error_message e\<rparr>,
         st\<lparr>isLoading := False, authError := login_error_message e\<rparr>, b1)"
    using r by (simp add: login_def login_catch_def Let_def)
  show "localStorage b1 = localStorage b"
    using axios_request_localStorage [of "login_request username password" b] r by simp
  show "axios_default_auth b1 = axios_default_auth b"
    using r by (auto simp: axios_request_def Let_def split: list.splits reply.splits if_splits)
  show "truthy (login_error_message e)"
    by (rule login_error_message_truthy)
  show "case detail_of e of
         Some d \<Rightarrow> login_error_message e = d
       | None \<Rightarrow> login_error_message e = JStr ''Login failed'' \<or>
                 login_error_message e = JStr ''Network error. Please try again.''"
    by (simp add: login_error_message_detail split: option.splits)
next
  assume r: "call_service (Login username password) b = (Rejected e', b2)"
  show "authService_login stringify username password b = (Rejected e', b2)"
    using r by (simp add: authService_login_def del: service_request.simps)
  show "localStorage b2 = localStorage b \<or> localStorage b2 = (localStorage b)(''token'' := None)"
    using api_loop_localStorage [of "replies b" "service_request (Login username password)" b] r
    by (simp add: call_service_def api_def del: service_request.simps)
qed

theorem login_failure_no_token_witness:
  "axios_request (login_request ''eve'' ''guess'') (browser_with [Reply bad_credentials]) =
     (Rejected (AxiosError (Some bad_credentials)),
      (browser_with [])\<lparr>sent := [login_request ''eve'' ''guess'']\<rparr>) \<and>
   login ''eve'' ''guess'' auth_initial (browser_with [Reply bad_credentials]) =
     (Resolved \<lparr>success = False, error = JStr ''Incorrect username or password''\<rparr>,
      \<lparr>user = JNull, isAuthenticated = False, isLoading = False,
       authError = JStr ''Incorrect username or password''\<rparr>,
      (browser_with [])\<lparr>sent := [login_request ''eve'' ''guess'']\<rparr>) \<and>
   localStorage ((browser_with [])\<lparr>sent := [login_request ''eve'' ''guess'']\<rparr>) ''token'' = None \<and>
   call_service (Login ''eve'' ''guess'') (browser_with [Reply bad_credentials]) =
     (Rejected (AxiosError (Some bad_credentials)),
      (browser_with [])\<lparr>sent := [service_request (Login ''eve'' ''guess'')],
                         location_href := ''/login''\<rparr>) \<and>
   authService_login js_String ''eve'' ''guess'' (browser_with [Reply bad_credentials]) =
     (Rejected (AxiosError (Some bad_credentials)),
      (browser_with [])\<lparr>sent := [service_request (Login ''eve'' ''guess'')],
                         location_href := ''/login''\<rparr>)"
proof -
  let ?b = "browser_with [Reply bad_credentials]"
  let ?e = "AxiosError (Some bad_credentials)"
  let ?b1 = "(browser_with [])\<lparr>sent := [login_request ''eve'' ''guess'']\<rparr>"
  let ?b2 = "(browser_with [])\<lparr>sent := [service_request (Login ''eve'' ''guess'')],
                         location_href := ''/login''\<rparr>"
  have h1: "axios_request (login_request ''eve'' ''guess'') ?b = (Rejected ?e, ?b1)"
    by (simp add: axios_request_def browser_with_def bad_credentials_def validateStatus_def)
  have h2: "call_service (Login ''eve'' ''guess'') ?b = (Rejected ?e, ?b2)"
    by (simp add: client_defs bad_credentials_def)
  have m: "login_error_message ?e = JStr ''Incorrect username or password''"
    by (simp add: login_error_message_def bad_credentials_def field_def js_or_def)
  have s: "auth_initial\<lparr>isLoading := False, authError := JStr ''Incorrect username or password''\<rparr> =
           \<lparr>user = JNull, isAuthenticated = False, isLoading = False,
            authError = JStr ''Incorrect username or password''\<rparr>"
    by (simp add: auth_initial_def)
  have t: "localStorage ?b1 ''token'' = None"
    by (simp add: browser_with_def)
  from login_failure_no_token [of "''eve''" "''guess''" ?b ?e ?b1 auth_initial ?e ?b2 js_String]
    h1 h2 t show ?thesis
    unfolding m s by (simp only: simp_thms)
qed

section \<open>Access to user management\<close>

text \<open>
  Claim C5. For an authenticated user whose role is not \<open>admin\<close>, the route
  \<open>/users\<close> renders a redirect to \<open>/dashboard\<close> and sends nothing; the \<open>users\<close>
  query of the page is disabled; and the page itself, if rendered, returns the
  access-denied message without a request to \<open>/users/\<close>.
\<close>

theorem non_admin_denied:
  assumes "isAuthenticated auth" and "\<not> isLoading auth"
    and "user auth = JObj kvs" and "map_of kvs ''role'' \<noteq> Some (JStr ''admin'')"
  shows "users_route auth b = (Inr (Shown (Navigate ''/dashboard'')), b) \<and>
         \<not> users_query_enabled auth \<and>
         UserManagement auth b = (AccessDenied, b)"
proof -
  from assms(3,4) obtain r where r: "get_prop (user auth) ''role'' = Some r" "r \<noteq> JStr ''admin''"
    by (cases "map_of kvs ''role''") auto
  have q: "\<not> users_query_enabled auth"
    using r by (simp add: users_query_enabled_def)
  have "ProtectedRoute auth (Some ''admin'') = Inr (Navigate ''/dashboard'')"
    using assms(1,2) r by (simp add: ProtectedRoute_def)
  then have "users_route auth b = (Inr (Shown (Navigate ''/dashboard'')), b)"
    by (simp add: users_route_def)
  moreover have "UserManagement auth b = (AccessDenied, b)"
    using q r assms(3) by (simp add: UserManagement_def)
  ultimately show ?thesis using q by simp
qed

theorem non_admin_denied_witness:
  "isAuthenticated (signed_in ''doctor'') \<and> \<not> isLoading (signed_in ''doctor'') \<and>
   user (signed_in ''doctor'') =
     JObj [(''id'', JNum 2), (''username'', JStr ''kim''), (''role'', JStr ''doctor'')] \<and>
   map_of [(''id'', JNum 2), (''username'', JStr ''kim''), (''role'', JStr ''doctor'')] ''role''
     \<noteq> Some (JStr ''admin'') \<and>
   users_route (signed_in ''doctor'') (browser_with []) =
     (Inr (Shown (Navigate ''/dashboard'')), browser_with []) \<and>
   \<not> users_query_enabled (signed_in ''doctor'') \<and>
   UserManagement (signed_in ''doctor'') (browser_with []) = (AccessDenied, browser_with [])"
proof -
  have h: "isAuthenticated (signed_in ''doctor'')" "\<not> isLoading (signed_in ''doctor'')"
    "user (signed_in ''doctor'') =
       JObj [(''id'', JNum 2), (''username'', JStr ''kim''), (''role'', JStr ''doctor'')]"
    "map_of [(''id'', JNum 2), (''username'', JStr ''kim''), (''role'', JStr ''doctor'')] ''role''
       \<noteq> Some (JStr ''admin'')"
    by (simp_all add: signed_in_def)
  from non_admin_denied [OF h, of "browser_with []"] h show ?thesis by simp
qed

lemma admin_admitted:
  "users_route (signed_in ''admin'') (browser_with []) =
     (Inr (UsersPage UserManagementPage),
      (browser_with [])\<lparr>sent := [service_request (GetUsers JUndefined)]\<rparr>)"
  by (simp add: users_route_def ProtectedRoute_def UserManagement_def users_query_enabled_def
      signed_in_def client_defs)

section \<open>The sorted list of predictions\<close>

lemma mset_js_insert: "mset (js_insert cmp x ys) = add_mset x (mset ys)"
  by (induction ys) simp_all

lemma mset_js_sort: "mset (js_sort cmp xs) = mset xs"
  unfolding js_sort_def by (induction xs) (simp_all add: mset_js_insert)

lemma set_js_insert: "set (js_insert cmp x ys) = insert x (set ys)"
  by (induction ys) auto

lemma descending_js_insert:
  assumes "sorted_wrt (\<lambda>a b. snd b \<le> (snd a :: real)) ys"
  shows "sorted_wrt (\<lambda>a b. snd b \<le> snd a) (js_insert (\<lambda>a b. snd b - snd a) x ys)"
  using assms
proof (induction ys)
  case Nil
  then show ?case by simp
next
  case (Cons y ys)
  show ?case
  proof (cases "snd y - snd x \<le> 0")
    case True
    then have "\<forall>z \<in> set (y # ys). snd z \<le> snd x"
      using Cons.prems by auto
    then show ?thesis using True Cons.prems by simp
  next
    case False
    then have "snd x \<le> snd y" by simp
    then show ?thesis using False Cons by (auto simp: set_js_insert)
  qed
qed

lemma descending_js_sort:
  "sorted_wrt (\<lambda>a b. snd b \<le> (snd a :: real)) (js_sort (\<lambda>a b. snd b - snd a) xs)"
  unfolding js_sort_def by (induction xs) (simp_all add: descending_js_insert)

text \<open>
  Claim C9. The list shown on the prediction detail page holds exactly the entries of
  the label-to-confidence mapping, each once (a permutation), and the confidence of
  every entry is at least the confidence of every later entry, so also of the next one.
\<close>

theorem sortedPredictions_sorted_permutation:
  "mset (map (\<lambda>p. (label p, confidence p)) (sortedPredictions (Some entries))) = mset entries \<and>
   sorted_wrt (\<lambda>p q. confidence q \<le> confidence p) (sortedPredictions (Some entries))"
proof
  have "map (\<lambda>p. (label p, confidence p)) (sortedPredictions (Some entries)) =
        js_sort (\<lambda>a b. snd b - snd a) entries"
    by (simp add: sortedPredictions_def comp_def)
  then show "mset (map (\<lambda>p. (label p, confidence p)) (sortedPredictions (Some entries))) = mset entries"
    by (simp add: mset_js_sort)
next
  show "sorted_wrt (\<lambda>p q. confidence q \<le> confidence p) (sortedPredictions (Some entries))"
    using descending_js_sort [of entries]
    by (simp add: sortedPredictions_def sorted_wrt_map)
qed

lemma sortedPredictions_example:
  "sortedPredictions (Some [(''Normal'', 0.05), (''Pneumonia'', 0.81), (''COVID-19'', 0.12),
                            (''Tuberculosis'', 0.02)]) =
     [\<lparr>label = ''Pneumonia'', confidence = 0.81\<rparr>, \<lparr>label = ''COVID-19'', confidence = 0.12\<rparr>,
      \<lparr>label = ''Normal'', confidence = 0.05\<rparr>, \<lparr>label = ''Tuberculosis'', confidence = 0.02\<rparr>]"
  by (simp add: sortedPredictions_def js_sort_def)

section \<open>Ratings of submitted feedback\<close>

lemma parseInt_rating_option:
  assumes "i < length rating_options"
  shows "parseInt (rating_options ! i) = JNum (int i)"
proof -
  have p: "parseInt ''0'' = JNum 0" "parseInt ''1'' = JNum 1" "parseInt ''2'' = JNum 2"
    "parseInt ''3'' = JNum 3" "parseInt ''4'' = JNum 4" "parseInt ''5'' = JNum 5"
    by (simp_all add: parseInt_def is_space_def digit_value_def digits_number_def Let_def)
  from assms have "i = 0 \<or> i = 1 \<or> i = 2 \<or> i = 3 \<or> i = 4 \<or> i = 5"
    by (auto simp: rating_options_def)
  then show ?thesis using p by (auto simp: rating_options_def)
qed

lemma map_of_obj_set:
  "map_of (obj_set k v kvs) k' = (if k' = k then Some v else map_of kvs k')"
  by (induction kvs) auto

lemma field_obj_set:
  "field (JObj (obj_set k v kvs)) k' = (if k' = k then v else field (JObj kvs) k')"
  by (simp add: field_def map_of_obj_set)

lemma call_service_sent:
  assumes "\<And>b c. key (request_interceptor b c) = key c"
  shows "\<exists>n>0. concat (map key (sent (snd (call_service c b)))) =
           concat (map key (sent b)) @ concat (replicate n (key (service_request c)))"
proof -
  from api_loop_sent [of key "replies b" "service_request c" b, OF assms]
  obtain n where "n > 0"
    "map key (sent (snd (api_loop (replies b) (service_request c) b))) =
     map key (sent b) @ replicate n (key (service_request c))"
    by blast
  then show ?thesis
    unfolding call_service_def api_def by (intro exI [of _ n]) simp
qed

lemma submitted_rating_interceptor:
  "submitted_rating (request_interceptor b c) = submitted_rating c"
  by (simp add: submitted_rating_def interceptor_keeps)

lemma create_feedback_rating:
  "submitted_rating (service_request (CreateFeedback d)) = [field d ''rating'']"
  by (simp add: submitted_rating_def api_post_def)

lemma mutate_browser:
  "snd (snd (mutate call f g s b)) = snd (call_service call b)"
  by (simp add: mutate_def split: prod.splits promise.splits)

lemma handleSubmitFeedback_ratings:
  "\<exists>n. submitted_ratings (snd (handleSubmitFeedback (p, c) b)) =
        submitted_ratings b @ replicate n (field (JObj (feedbackData p)) ''rating'')"
proof -
  let ?call = "CreateFeedback (JObj (feedbackData p))"
  have r: "concat (replicate n [x]) = replicate n x" for n and x :: jsval
    by (induction n) simp_all
  have "snd (handleSubmitFeedback (p, c) b) = snd (call_service ?call b)"
    using mutate_browser [of ?call _ _ c b]
    by (auto simp: handleSubmitFeedback_def submitFeedbackMutation_def split: prod.splits)
       (metis snd_conv)
  moreover from call_service_sent [of submitted_rating ?call b, OF submitted_rating_interceptor]
  obtain n where "submitted_ratings (snd (call_service ?call b)) =
      submitted_ratings b @ replicate n (field (JObj (feedbackData p)) ''rating'')"
    unfolding submitted_ratings_def
    by (auto simp: create_feedback_rating r simp del: service_request.simps)
  ultimately show ?thesis by auto
qed

lemma handleSubmitFeedback_feedbackData:
  "feedbackData (fst (fst (handleSubmitFeedback (p, c) b))) = feedbackData p"
  by (simp add: handleSubmitFeedback_def submitFeedbackMutation_def split: prod.splits)

lemma detail_step_inv:
  assumes "feedback_inv x"
  shows "feedback_inv (detail_step ev x)"
proof -
  obtain p c b where x: "x = ((p, c), b)" by (cases x) auto
  from assms x have p: "rating_0_to_5 p" and b: "list_all rating_1_to_5 (submitted_ratings b)"
    by (simp_all add: feedback_inv_def)
  show ?thesis
  proof (cases ev)
    case (SetActiveTab t)
    then show ?thesis using x p b by (simp add: detail_step_def feedback_inv_def rating_0_to_5_def)
  next
    case (FeedbackLoaded v)
    then show ?thesis using x p b by (simp add: detail_step_def feedback_inv_def rating_0_to_5_def)
  next
    case (ChooseRating i)
    show ?thesis
    proof (cases "feedback_form_shown p \<and> i < length rating_options")
      case True
      then have "i \<le> 5" by (simp add: rating_options_def)
      then have "rating_0_to_5 (handleFeedbackChange ''rating'' (rating_options ! i) p)"
        using True
        by (simp add: rating_0_to_5_def handleFeedbackChange_def field_obj_set parseInt_rating_option)
      then show ?thesis using ChooseRating x True b by (simp add: detail_step_def feedback_inv_def)
    next
      case False
      then show ?thesis using ChooseRating x assms by (auto simp: detail_step_def)
    qed
  next
    case (EditOverride v)
    have "rating_0_to_5 (handleFeedbackChange ''override_diagnosis'' v p)"
      using p by (simp add: rating_0_to_5_def handleFeedbackChange_def field_obj_set)
    then show ?thesis using EditOverride x assms b
      by (auto simp: detail_step_def feedback_inv_def)
  next
    case (EditComment v)
    have "rating_0_to_5 (handleFeedbackChange ''feedback_text'' v p)"
      using p by (simp add: rating_0_to_5_def handleFeedbackChange_def field_obj_set)
    then show ?thesis using EditComment x assms b
      by (auto simp: detail_step_def feedback_inv_def)
  next
    case PressSubmit
    show ?thesis
    proof (cases "feedback_form_shown p \<and> \<not> submit_disabled p")
      case True
      from p obtain n where n: "field (JObj (feedbackData p)) ''rating'' = JNum n" "0 \<le> n" "n \<le> 5"
        by (auto simp: rating_0_to_5_def)
      with True have "rating_1_to_5 (field (JObj (feedbackData p)) ''rating'')"
        by (auto simp: submit_disabled_def)
      moreover obtain k where "submitted_ratings (snd (handleSubmitFeedback (p, c) b)) =
          submitted_ratings b @ replicate k (field (JObj (feedbackData p)) ''rating'')"
        using handleSubmitFeedback_ratings by blast
      ultimately have "list_all rating_1_to_5 (submitted_ratings (snd (handleSubmitFeedback (p, c) b)))"
        using b by (auto simp: list_all_iff)
      moreover have "rating_0_to_5 (fst (fst (handleSubmitFeedback (p, c) b)))"
        using p handleSubmitFeedback_feedbackData [of p c b] by (simp add: rating_0_to_5_def)
      ultimately show ?thesis using PressSubmit x True
        by (simp add: detail_step_def feedback_inv_def)
    next
      case False
      then show ?thesis using PressSubmit x assms by (auto simp: detail_step_def)
    qed
  qed
qed

lemma detail_run_inv: "feedback_inv x \<Longrightarrow> feedback_inv (detail_run evs x)"
  unfolding detail_run_def by (induction evs arbitrary: x) (simp_all add: detail_step_inv)

lemma detail_initial_rating: "rating_0_to_5 (detail_initial ident)"
  by (simp add: rating_0_to_5_def detail_initial_def field_def)

text \<open>
  Claim C8. Whatever the user does with the feedback form, every feedback submission
  put on the wire carries an integer rating from 1 to 5: the options of the select are
  parsed by \<open>parseInt\<close> to the integers 0 to 5, and the submit button is disabled
  whenever the rating is 0.
\<close>

theorem feedback_rating_in_range:
  assumes "list_all rating_1_to_5 (submitted_ratings b)"
  shows "list_all rating_1_to_5
           (submitted_ratings (snd (detail_run evs ((detail_initial ident, c), b)))) \<and>
         map parseInt rating_options = map JNum [0, 1, 2, 3, 4, 5] \<and>
         submit_disabled (handleFeedbackChange ''rating'' ''0'' p)"
proof (intro conjI)
  have "feedback_inv ((detail_initial ident, c), b)"
    using assms by (simp add: feedback_inv_def detail_initial_rating)
  from detail_run_inv [OF this, of evs]
  show "list_all rating_1_to_5 (submitted_ratings (snd (detail_run evs ((detail_initial ident, c), b))))"
    by (simp add: feedback_inv_def)
next
  show "map parseInt rating_options = map JNum [0, 1, 2, 3, 4, 5]"
    by (simp add: rating_options_def parseInt_def is_space_def digit_value_def digits_number_def
        Let_def)
next
  have "parseInt ''0'' = JNum 0"
    using parseInt_rating_option [of 0] by (simp add: rating_options_def)
  then show "submit_disabled (handleFeedbackChange ''rating'' ''0'' p)"
    by (simp add: submit_disabled_def handleFeedbackChange_def field_obj_set)
qed

lemmas detail_page_defs =
  detail_run_def detail_step_def detail_initial_def handleFeedbackChange_def
  handleSubmitFeedback_def submitFeedbackMutation_def mutate_def feedback_form_shown_def
  submit_disabled_def rating_options_def submitted_ratings_def submitted_rating_def
  client_initial_def notify_def field_def status_reply_def
  parseInt_def is_space_def digit_value_def digits_number_def

lemma feedback_session_example:
  "submitted_ratings (snd (detail_run
      [SetActiveTab ''feedback'', PressSubmit, ChooseRating 4, EditComment ''agree'', PressSubmit]
      ((detail_initial ''3'', client_initial), browser_with [status_reply 201 JNull]))) = [JNum 4]"
  by (simp add: detail_page_defs client_defs)

theorem feedback_rating_in_range_witness:
  "list_all rating_1_to_5 (submitted_ratings (browser_with [status_reply 201 JNull])) \<and>
   list_all rating_1_to_5 (submitted_ratings (snd (detail_run
      [SetActiveTab ''feedback'', PressSubmit, ChooseRating 4, EditComment ''agree'', PressSubmit]
      ((detail_initial ''3'', client_initial), browser_with [status_reply 201 JNull]))))"
proof -
  have h: "list_all rating_1_to_5 (submitted_ratings (browser_with [status_reply 201 JNull]))"
    by (simp add: submitted_ratings_def browser_with_def)
  from feedback_rating_in_range [OF h] h show ?thesis by blast
qed

section \<open>Mutations and the query cache\<close>

lemma served_invalidated:
  "take (length k) q = k \<Longrightarrow> served_from_cache q (invalidateQueries k qs) = None"
  by (auto simp: served_from_cache_def invalidateQueries_def split: option.splits)

lemma run_user_mutation_success:
  assumes "fst (call_service (user_mutation_call m) b) = Resolved r"
  shows "queries (snd (fst (snd (run_user_mutation m (p, c) b)))) =
           invalidateQueries users_key (queries c)"
  using assms
  by (cases m; cases "call_service (user_mutation_call m) b")
     (simp_all add: addUserMutation_def updateUserMutation_def deleteUserMutation_def mutate_def
        invalidate_def notify_def del: service_request.simps)

text \<open>
  Claim C6, as amended. When the request of a user create, update or delete mutation
  of the user management page resolves, its \<open>onSuccess\<close> callback invalidates the
  cached queries under the key \<open>users\<close>: the cache after the mutation is the cache
  before with those queries marked, and a read of any of them is no longer served from
  the cache.
\<close>

theorem user_mutations_invalidate:
  assumes "fst (call_service (user_mutation_call m) b) = Resolved r"
  shows "queries (snd (fst (snd (run_user_mutation m (p, c) b)))) =
           invalidateQueries users_key (queries c) \<and>
         served_from_cache (users_key @ rest)
           (queries (snd (fst (snd (run_user_mutation m (p, c) b))))) = None"
  using run_user_mutation_success [OF assms] served_invalidated [of users_key "users_key @ rest"]
  by simp

text \<open>
  The claim as stated fails for feedback submission: the request resolves, and the
  cached result of the feedback query of that prediction is served after the mutation
  as it was before, since \<open>onSuccess\<close> of that mutation only shows a toast.
\<close>

theorem feedback_not_invalidated:
  "fst (call_service (CreateFeedback feedback_3) (browser_with [status_reply 201 feedback_3])) =
     Resolved \<lparr>resp_status = 201, resp_data = feedback_3\<rparr> \<and>
   served_from_cache feedback_3_key (queries client_with_feedback_3) = Some JNull \<and>
   queries (snd (fst (submitFeedbackMutation feedback_3
                        (detail_initial ''3'', client_with_feedback_3)
                        (browser_with [status_reply 201 feedback_3])))) =
     queries client_with_feedback_3 \<and>
   served_from_cache feedback_3_key
     (queries (snd (fst (submitFeedbackMutation feedback_3
                           (detail_initial ''3'', client_with_feedback_3)
                           (browser_with [status_reply 201 feedback_3]))))) = Some JNull"
  by (simp add: submitFeedbackMutation_def mutate_def notify_def status_reply_def client_defs
      served_from_cache_def client_with_feedback_3_def feedback_3_key_def users_key_def)

theorem user_mutations_invalidate_witness:
  "fst (call_service (user_mutation_call (AddUser blank_user))
          (browser_with [status_reply 201 blank_user])) =
     Resolved \<lparr>resp_status = 201, resp_data = blank_user\<rparr> \<and>
   served_from_cache users_key (queries client_with_feedback_3) = Some (JArr []) \<and>
   served_from_cache users_key
     (queries (snd (fst (snd (run_user_mutation (AddUser blank_user)
                                (um_initial, client_with_feedback_3)
                                (browser_with [status_reply 201 blank_user])))))) = None"
proof -
  have h: "fst (call_service (user_mutation_call (AddUser blank_user))
             (browser_with [status_reply 201 blank_user])) =
           Resolved \<lparr>resp_status = 201, resp_data = blank_user\<rparr>"
    by (simp add: status_reply_def client_defs)
  have s: "served_from_cache users_key (queries client_with_feedback_3) = Some (JArr [])"
    by (simp add: served_from_cache_def client_with_feedback_3_def feedback_3_key_def users_key_def)
  from user_mutations_invalidate [OF h, where rest = "[]" and p = um_initial and c = client_with_feedback_3] h s
  show ?thesis by (simp add: served_invalidated)
qed

text \<open>The mutations of the prediction detail page and of the profile page leave the cache alone.\<close>

lemma other_mutations_keep_cache:
  "queries (snd (fst (submitFeedbackMutation d (p, c) b))) = queries c"
  "queries (snd (fst (generateReportMutation d (p, c) b))) = queries c"
  "queries (snd (fst (snd (updateProfileMutation uid d (pw, c) b)))) = queries c"
  "queries (snd (fst (snd (changePasswordMutation uid d (pw, c) b)))) = queries c"
  by (simp_all add: submitFeedbackMutation_def generateReportMutation_def
      updateProfileMutation_def changePasswordMutation_def mutate_def notify_def
      split: prod.splits promise.splits del: service_request.simps)

section \<open>Requests and the listed endpoints\<close>

lemmas endpoint_defs =
  listed_in_def targets_def spec_endpoints_def code_only_endpoints_def
  api_get_def api_post_def api_post_with_def api_put_def api_delete_def

text \<open>
  Claim C7, as amended. Every request built by the service layer targets, with a
  listed method, an endpoint of the specification's list or one of the five further
  endpoints \<open>/auth/verify-token\<close> (POST), \<open>/images/upload\<close> (POST),
  \<open>/feedback/\<close> (POST), \<open>/reports/{id}\<close> (GET) and \<open>/users/{id}\<close>
  (GET/PUT/DELETE). In particular an image upload is a POST to \<open>/images/upload\<close>
  and feedback creation is a POST to \<open>/feedback/\<close>, without an id.
\<close>

theorem service_requests_target_endpoints:
  "listed_in (spec_endpoints @ code_only_endpoints) (service_request c) \<and>
   req_method (service_request (UploadImage formData)) = POST \<and>
   req_url (service_request (UploadImage formData)) = [Text ''/images/upload''] \<and>
   req_method (service_request (CreateFeedback data)) = POST \<and>
   req_url (service_request (CreateFeedback data)) = [Text ''/feedback/'']"
  by (cases c) (simp_all add: endpoint_defs)

text \<open>
  The claim as stated fails: the request of \<open>uploadImage\<close> is not a request to
  \<open>/images/\<close> and targets no endpoint of the specification's list, and the request
  of \<open>createFeedback\<close> has no id in its path, so it does not target
  \<open>/feedback/{id}\<close> nor any other listed endpoint.
\<close>

theorem upload_not_posted_to_images:
  "\<not> listed_in spec_endpoints (service_request (UploadImage (FileBody png_1k))) \<and>
   req_url (service_request (UploadImage (FileBody png_1k))) \<noteq> [Text ''/images/''] \<and>
   \<not> listed_in spec_endpoints (service_request (CreateFeedback feedback_3)) \<and>
   \<not> list_all2 part_matches (url_path (req_url (service_request (CreateFeedback feedback_3))))
        [PText ''/feedback/'', PParam]"
  by (simp add: endpoint_defs)

text \<open>Which service functions stay within the specification's list.\<close>

lemma listed_in_spec_iff:
  "listed_in spec_endpoints (service_request c) = (\<not> beyond_spec c)"
  by (cases c) (simp_all add: endpoint_defs)

text \<open>The request interceptor does not change what a request targets.\<close>

lemma targets_interceptor:
  "targets (request_interceptor b r) e = targets r e"
  by (simp add: targets_def interceptor_keeps)

end
